theory Spec2Isabelle
  imports Complex_Main "HOL-Library.Sublist"
begin

section \<open>The appointment checker of usappointment.js\<close>

text \<open>
  The script drives a browser through a login form, queries the portal for open
  appointment dates and reports an earlier one. Everything it does is asynchronous I/O
  awaited in sequence, so a computation is modelled as a function from the state it
  starts in to what it has produced when it settles: the value it resolved to or the
  error it rejected with, the milliseconds that went by, and the requests it issued to
  its collaborators (browser, page, console, HTTP client), each stamped with the time
  it was issued. A computation that never settles is \<open>Pending\<close>, with the requests it
  issued before it came to rest. Time is a logical clock in milliseconds.
\<close>

subsection \<open>Values, errors, requests\<close>

text \<open>A thrown JavaScript \<open>Error\<close>, with its message.\<close>

datatype error = Error string

text \<open>
  The JavaScript values the helpers look at. \<open>JSHandle v\<close> is the object puppeteer
  returns for a value \<open>v\<close> living in the page; \<open>ElementHandle n\<close> is the handle of a
  DOM node. Both are objects.
\<close>

datatype js_value =
    Undefined
  | Null
  | Boolean bool
  | Number int
  | String string
  | JSHandle js_value
  | ElementHandle nat

text \<open>What \<open>if (v)\<close> takes as true: every object is, whatever it refers to.\<close>

fun truthy :: "js_value \<Rightarrow> bool" where
  "truthy Undefined = False"
| "truthy Null = False"
| "truthy (Boolean b) = b"
| "truthy (Number n) = (n \<noteq> 0)"
| "truthy (String s) = (s \<noteq> [])"
| "truthy (JSHandle v) = True"
| "truthy (ElementHandle n) = True"

type_synonym element = nat

text \<open>The root of a lookup: the frame (page) or an element already resolved.\<close>

datatype root = Frame nat | Within element

text \<open>The options object \<open>{ timeout, visible: true }\<close> handed on to puppeteer.\<close>

datatype options = Options (timeout_ms: nat) (visible: bool)

text \<open>What a function evaluated in the page does to its element.\<close>

datatype dom_op =
    ScrollIntoView string string string
  | SetValue string
  | DispatchEvent string bool

datatype settled = Truthy | Falsy | Threw error

text \<open>
  The requests the script issues. \<open>Invoked\<close> and \<open>Settled\<close> are not issued by the
  script: they are the marks of a spy wrapped around a predicate (see \<open>spy\<close>).
\<close>

datatype call =
    Log string
  | ConsoleError error
  | Launch
  | UserAgent
  | NewPage
  | SetDefaultTimeout nat
  | SetDefaultNavigationTimeout nat
  | SetViewport nat nat
  | Goto string string
  | WaitForSelector root string options
  | ShadowRoot element
  | GetProperty element string
  | IsIntersectingViewport element nat
  | Evaluate element "dom_op list"
  | Click element real real
  | EvaluateType element
  | TypeText element string
  | Focus element
  | KeyboardDown string
  | KeyboardUp string
  | WaitForNavigation
  | Cookies
  | HttpGet string "(string \<times> string option) list"
  | HttpPost string "(string \<times> string) list" "(string \<times> string) list"
  | Close
  | ProcessExit
  | Invoked
  | Settled settled

datatype event = Ev nat call

datatype state = State (now: nat) (history: "event list")

datatype 'a result =
    Result (outcome: "error + 'a") (elapsed: nat) (emitted: "event list")
  | Pending (emitted: "event list")

type_synonym 'a prog = "state \<Rightarrow> 'a result"

text \<open>The moment a computation started in \<open>s\<close> settles.\<close>

definition finished :: "state \<Rightarrow> 'a result \<Rightarrow> nat" where
  "finished s r = now s + elapsed r"

text \<open>\<open>return v\<close> and \<open>throw e\<close> of an async function: no time, no request.\<close>

definition return :: "'a \<Rightarrow> 'a prog" where
  "return v s = Result (Inr v) 0 []"

definition throw :: "error \<Rightarrow> 'a prog" where
  "throw e s = Result (Inl e) 0 []"

text \<open>
  \<open>const x = await m; k x\<close>: when \<open>m\<close> rejects, the rest is skipped and the error
  goes up; when \<open>m\<close> never settles, the rest is never reached.
\<close>

definition await :: "'a prog \<Rightarrow> ('a \<Rightarrow> 'b prog) \<Rightarrow> 'b prog" where
  "await m k s =
     (case m s of
        Result (Inl e) d evs \<Rightarrow> Result (Inl e) d evs
      | Result (Inr x) d evs \<Rightarrow>
          (case k x (State (now s + d) (history s @ evs)) of
             Result out' d' evs' \<Rightarrow> Result out' (d + d') (evs @ evs')
           | Pending evs' \<Rightarrow> Pending (evs @ evs'))
      | Pending evs \<Rightarrow> Pending evs)"

subsection \<open>The condition poller: \<open>waitForFunction\<close>\<close>

text \<open>
  \<^verbatim>\<open>
  async function waitForFunction(fn, timeout) {
    let isActive = true;
    setTimeout(() => { isActive = false; }, timeout);
    while (isActive) {
      const result = await fn();
      if (result) { return; }
      await new Promise(resolve => setTimeout(resolve, 100));
    }
    throw new Error('Timed out');
  }
  \<close>
  The flag is cleared by a timer, so \<open>isActive\<close> holds at a moment \<open>t\<close> exactly when
  \<open>t\<close> is before the deadline, the start plus the delay of the timer. Node takes a
  delay below 1 ms or above \<open>2^31 - 1\<close> ms as 1 ms. The first test of the flag comes
  before the timer can fire, so the predicate is always invoked once; every later test
  comes after the 100 ms pause. The loop is entered with the flag set. Nothing ends an
  invocation that never settles: the poller then never settles either.
\<close>

definition setTimeout_delay :: "nat \<Rightarrow> nat" where
  "setTimeout_delay delay = (if delay < 1 \<or> 2147483647 < delay then 1 else delay)"

function waitForFunction_loop :: "js_value prog \<Rightarrow> nat \<Rightarrow> state \<Rightarrow> unit result" where
  "waitForFunction_loop fn deadline s =
     (case fn s of
        Result (Inl e) d evs \<Rightarrow> Result (Inl e) d evs
      | Result (Inr result) d evs \<Rightarrow>
          if truthy result then Result (Inr ()) d evs
          else if now s + d + 100 < deadline
          then (case waitForFunction_loop fn deadline (State (now s + d + 100) (history s @ evs)) of
                  Result out' d' evs' \<Rightarrow> Result out' (d + 100 + d') (evs @ evs')
                | Pending evs' \<Rightarrow> Pending (evs @ evs'))
          else Result (Inl (Error ''Timed out'')) (d + 100) evs
      | Pending evs \<Rightarrow> Pending evs)"
  by pat_completeness auto
termination
  by (relation "measure (\<lambda>(fn, deadline, s). deadline - now s)") auto

declare waitForFunction_loop.simps [simp del]

definition waitForFunction :: "js_value prog \<Rightarrow> nat \<Rightarrow> unit prog" where
  "waitForFunction fn timeout s = waitForFunction_loop fn (now s + setTimeout_delay timeout) s"

text \<open>
  A spy around a predicate: it leaves the predicate as it is and marks in the trace
  when each invocation starts, when it settles and how.
\<close>

definition how_settled :: "error + js_value \<Rightarrow> settled" where
  "how_settled out =
     (case out of
        Inl e \<Rightarrow> Threw e
      | Inr v \<Rightarrow> if truthy v then Truthy else Falsy)"

definition spy :: "js_value prog \<Rightarrow> js_value prog" where
  "spy fn s =
     (case fn s of
        Result out d evs \<Rightarrow>
          Result out d (Ev (now s) Invoked # evs @ [Ev (now s + d) (Settled (how_settled out))])
      | Pending evs \<Rightarrow> Pending (Ev (now s) Invoked # evs))"

datatype mark = Started nat | Ended nat settled

definition mark_of :: "event \<Rightarrow> mark option" where
  "mark_of ev =
     (case ev of Ev t c \<Rightarrow>
        (case c of Invoked \<Rightarrow> Some (Started t) | Settled x \<Rightarrow> Some (Ended t x) | _ \<Rightarrow> None))"

definition marks :: "event list \<Rightarrow> mark list" where
  "marks evs = List.map_filter mark_of evs"

text \<open>A predicate that leaves no mark of its own.\<close>

definition unmarked :: "js_value prog \<Rightarrow> bool" where
  "unmarked fn = (\<forall>s. marks (emitted (fn s)) = [])"

text \<open>
  The marks of invocations made one at a time: each starts, then settles, and the next
  one starts exactly 100 ms after the one before has settled, which was falsy. The last
  one may be left unsettled.
\<close>

fun one_at_a_time :: "mark list \<Rightarrow> bool" where
  "one_at_a_time [] = True"
| "one_at_a_time [Started t] = True"
| "one_at_a_time [Started t, Ended u x] = (t \<le> u)"
| "one_at_a_time (Started t # Ended u x # Started t' # rest) =
     (t \<le> u \<and> x = Falsy \<and> t' = u + 100 \<and> one_at_a_time (Started t' # rest))"
| "one_at_a_time ms = False"

text \<open>
  \<open>k\<close> rounds of the loop that go on: in each the predicate settles with a falsy value
  and the flag, tested after the pause of 100 ms, is still set. The value is the time
  the rounds take and the requests issued in them; \<open>None\<close> when the first \<open>k\<close> rounds
  are not all of this kind.
\<close>

fun falsy_rounds ::
  "js_value prog \<Rightarrow> nat \<Rightarrow> nat \<Rightarrow> state \<Rightarrow> (nat \<times> event list) option"
where
  "falsy_rounds fn deadline 0 s = Some (0, [])"
| "falsy_rounds fn deadline (Suc k) s =
     (case fn s of
        Result (Inr result) d evs \<Rightarrow>
          if \<not> truthy result \<and> now s + d + 100 < deadline
          then (case falsy_rounds fn deadline k (State (now s + d + 100) (history s @ evs)) of
                  None \<Rightarrow> None
                | Some (d', evs') \<Rightarrow> Some (d + 100 + d', evs @ evs'))
          else None
      | Result (Inl e) d evs \<Rightarrow> None
      | Pending evs \<Rightarrow> None)"

subsection \<open>The collaborators\<close>

text \<open>
  The browser, the page, the portal and the push service are outside the script. A
  request to one of them is answered by the world: for the state in which the request
  is issued (the clock and everything issued so far) the world says after how many
  milliseconds the promise settles and whether it resolves, and to what, or rejects.
  There is one oracle for each type of answer. The three \<open>Date\<close> functions are those of
  the JavaScript engine the script runs on.
\<close>

datatype js_date = Invalid_Date | Time_Value int

record cookie =
  name :: string
  cookie_value :: string

record slot =
  date :: string

record world =
  reply_unit :: "state \<Rightarrow> call \<Rightarrow> (error + unit) \<times> nat"
  reply_element :: "state \<Rightarrow> call \<Rightarrow> (error + element option) \<times> nat"
  reply_value :: "state \<Rightarrow> call \<Rightarrow> (error + js_value) \<times> nat"
  reply_string :: "state \<Rightarrow> call \<Rightarrow> (error + string) \<times> nat"
  reply_cookies :: "state \<Rightarrow> call \<Rightarrow> (error + cookie list) \<times> nat"
  reply_slots :: "state \<Rightarrow> call \<Rightarrow> (error + slot list) \<times> nat"
  Date_parse :: "string \<Rightarrow> js_date"
  Date_toString :: "js_date \<Rightarrow> string"
  Date_toDateString :: "js_date \<Rightarrow> string"

text \<open>An awaited request, and a synchronous call that cannot fail (\<open>console.log\<close>).\<close>

definition request :: "(state \<Rightarrow> call \<Rightarrow> (error + 'a) \<times> nat) \<Rightarrow> call \<Rightarrow> 'a prog" where
  "request reply c s = (case reply s c of (answer, d) \<Rightarrow> Result answer d [Ev (now s) c])"

definition tell :: "call \<Rightarrow> unit prog" where
  "tell c s = Result (Inr ()) 0 [Ev (now s) c]"

text \<open>\<open>try { return await m } catch (err) { }\<close> followed by \<open>k\<close>.\<close>

definition try_return :: "'a prog \<Rightarrow> 'a prog \<Rightarrow> 'a prog" where
  "try_return m k s =
     (case m s of
        Result (Inr x) d evs \<Rightarrow> Result (Inr x) d evs
      | Result (Inl err) d evs \<Rightarrow>
          (case k (State (now s + d) (history s @ evs)) of
             Result out' d' evs' \<Rightarrow> Result out' (d + d') (evs @ evs')
           | Pending evs' \<Rightarrow> Pending (evs @ evs'))
      | Pending evs \<Rightarrow> Pending evs)"

subsection \<open>The element locator: \<open>waitForSelector\<close> and \<open>waitForSelectors\<close>\<close>

text \<open>
  A selector is handed over as an array of parts, or as a single part that
  \<open>waitForSelector\<close> wraps into an array.
\<close>

datatype selector = Part string | Parts "string list"

fun parts_of :: "selector \<Rightarrow> string list" where
  "parts_of (Part p) = [p]"
| "parts_of (Parts ps) = ps"

text \<open>\<open>Array.prototype.join\<close>.\<close>

fun join :: "string \<Rightarrow> string list \<Rightarrow> string" where
  "join sep [] = []"
| "join sep [x] = x"
| "join sep (x # y # ys) = x @ sep @ join sep (y # ys)"

text \<open>
  \<open>JSON.stringify\<close> on strings and on arrays of them: a string is quoted, with the
  quote, the backslash and the control characters escaped.
\<close>

definition hex_digit :: "nat \<Rightarrow> char" where
  "hex_digit n = ''0123456789abcdef'' ! (n mod 16)"

definition json_char :: "char \<Rightarrow> string" where
  "json_char c =
     (if c = CHR 0x22 then [CHR 0x5C, CHR 0x22]
      else if c = CHR 0x5C then [CHR 0x5C, CHR 0x5C]
      else if c = CHR 0x08 then [CHR 0x5C, CHR ''b'']
      else if c = CHR 0x0C then [CHR 0x5C, CHR ''f'']
      else if c = CHR 0x0A then [CHR 0x5C, CHR ''n'']
      else if c = CHR 0x0D then [CHR 0x5C, CHR ''r'']
      else if c = CHR 0x09 then [CHR 0x5C, CHR ''t'']
      else if (of_char c :: nat) < 32
      then [CHR 0x5C, CHR ''u'', CHR ''0'', CHR ''0'',
            hex_digit ((of_char c :: nat) div 16), hex_digit (of_char c)]
      else [c])"

definition json_string :: "string \<Rightarrow> string" where
  "json_string str = [CHR 0x22] @ concat (map json_char str) @ [CHR 0x22]"

definition json_array :: "string list \<Rightarrow> string" where
  "json_array items = ''['' @ join '','' items @ '']''"

fun json_selector :: "selector \<Rightarrow> string" where
  "json_selector (Part p) = json_string p"
| "json_selector (Parts ps) = json_array (map json_string ps)"

definition JSON_stringify :: "selector list \<Rightarrow> string" where
  "JSON_stringify selectors = json_array (map json_selector selectors)"

text \<open>
  \<^verbatim>\<open>
  let element = null;
  for (let i = 0; i < selector.length; i++) {
    const part = selector[i];
    if (element) { element = await element.waitForSelector(part, options); }
    else { element = await frame.waitForSelector(part, options); }
    if (!element) { throw new Error('Could not find element: ' + selector.join('>>')); }
    if (i < selector.length - 1) {
      element = (await element.evaluateHandle(
        el => el.shadowRoot ? el.shadowRoot : el)).asElement();
    }
  }
  \<close>
  The loop runs over the parts still to resolve; \<open>element\<close> is \<open>None\<close> for \<open>null\<close>.
  A lookup resolves to a handle or to \<open>null\<close>, or rejects; so does the step into the
  shadow root, whose \<open>asElement()\<close> may give \<open>null\<close>.
\<close>

primrec waitForSelector_loop ::
  "string list \<Rightarrow> world \<Rightarrow> string list \<Rightarrow> nat \<Rightarrow> options \<Rightarrow> element option \<Rightarrow> element option prog"
where
  "waitForSelector_loop [] w selector frame options element = return element"
| "waitForSelector_loop (part # rest) w selector frame options element =
     await (request (reply_element w)
              (WaitForSelector (case element of Some e \<Rightarrow> Within e | None \<Rightarrow> Frame frame)
                 part options))
       (\<lambda>found.
          case found of
            None \<Rightarrow> throw (Error (''Could not find element: '' @ join ''>>'' selector))
          | Some e \<Rightarrow>
              if rest \<noteq> []
              then await (request (reply_element w) (ShadowRoot e))
                     (\<lambda>inner. waitForSelector_loop rest w selector frame options inner)
              else waitForSelector_loop rest w selector frame options (Some e))"

definition waitForSelector :: "world \<Rightarrow> selector \<Rightarrow> nat \<Rightarrow> options \<Rightarrow> element prog" where
  "waitForSelector w selector frame options =
     (if parts_of selector = []
      then throw (Error ''Empty selector provided to waitForSelector'')
      else await (waitForSelector_loop (parts_of selector) w (parts_of selector) frame options None)
             (\<lambda>element.
                case element of
                  None \<Rightarrow> throw (Error (''Could not find element: '' @ join ''|'' (parts_of selector)))
                | Some e \<Rightarrow> return e))"

text \<open>
  \<^verbatim>\<open>
  for (const selector of selectors) {
    try { return await waitForSelector(selector, frame, options); } catch (err) { }
  }
  throw new Error('Could not find element for selectors: ' + JSON.stringify(selectors));
  \<close>
\<close>

primrec waitForSelectors_loop ::
  "selector list \<Rightarrow> world \<Rightarrow> selector list \<Rightarrow> nat \<Rightarrow> options \<Rightarrow> element prog"
where
  "waitForSelectors_loop [] w selectors frame options =
     throw (Error (''Could not find element for selectors: '' @ JSON_stringify selectors))"
| "waitForSelectors_loop (selector # rest) w selectors frame options =
     try_return (waitForSelector w selector frame options)
       (waitForSelectors_loop rest w selectors frame options)"

definition waitForSelectors :: "world \<Rightarrow> selector list \<Rightarrow> nat \<Rightarrow> options \<Rightarrow> element prog" where
  "waitForSelectors w selectors frame options =
     waitForSelectors_loop selectors w selectors frame options"

text \<open>
  The strategies of a list tried one after the other, each failing: the time that takes
  and the requests issued; \<open>None\<close> as soon as one of them resolves.
\<close>

primrec fail_in_turn ::
  "selector list \<Rightarrow> world \<Rightarrow> nat \<Rightarrow> options \<Rightarrow> state \<Rightarrow> (nat \<times> event list) option"
where
  "fail_in_turn [] w frame options s = Some (0, [])"
| "fail_in_turn (selector # rest) w frame options s =
     (case waitForSelector w selector frame options s of
        Result (Inl err) d evs \<Rightarrow>
          (case fail_in_turn rest w frame options (State (now s + d) (history s @ evs)) of
             None \<Rightarrow> None
           | Some (d', evs') \<Rightarrow> Some (d + d', evs @ evs'))
      | Result (Inr e) d evs \<Rightarrow> None
      | Pending evs \<Rightarrow> None)"

text \<open>Whenever an attempt on one of the strategies fails, it has taken at least \<open>T\<close> ms.\<close>

definition fails_slowly :: "world \<Rightarrow> selector list \<Rightarrow> nat \<Rightarrow> options \<Rightarrow> nat \<Rightarrow> bool" where
  "fails_slowly w selectors frame options T =
     (\<forall>selector \<in> set selectors. \<forall>s.
        (\<exists>e. outcome (waitForSelector w selector frame options s) = Inr e) \<or>
        T \<le> elapsed (waitForSelector w selector frame options s))"

subsection \<open>The visibility guarantor: \<open>scrollIntoViewIfNeeded\<close>\<close>

text \<open>
  \<open>element.getProperty(name)\<close> resolves to a \<open>JSHandle\<close> for the value the property has
  in the page, not to the value; \<open>element.isIntersectingViewport({ threshold: 0 })\<close>
  resolves to a boolean.
\<close>

definition getProperty :: "world \<Rightarrow> element \<Rightarrow> string \<Rightarrow> js_value prog" where
  "getProperty w element property =
     await (request (reply_value w) (GetProperty element property)) (\<lambda>v. return (JSHandle v))"

definition isIntersectingViewport :: "world \<Rightarrow> element \<Rightarrow> js_value prog" where
  "isIntersectingViewport w element = request (reply_value w) (IsIntersectingViewport element 0)"

definition waitForConnected :: "world \<Rightarrow> element \<Rightarrow> nat \<Rightarrow> unit prog" where
  "waitForConnected w element timeout =
     waitForFunction (getProperty w element ''isConnected'') timeout"

definition waitForInViewport :: "world \<Rightarrow> element \<Rightarrow> nat \<Rightarrow> unit prog" where
  "waitForInViewport w element timeout =
     waitForFunction (isIntersectingViewport w element) timeout"

text \<open>
  \<^verbatim>\<open>
  await waitForConnected(element, timeout);
  const isInViewport = await element.isIntersectingViewport({ threshold: 0 });
  if (isInViewport) { return; }
  await element.evaluate(element => {
    element.scrollIntoView({ block: 'center', inline: 'center', behavior: 'auto' });
  });
  await waitForInViewport(element, timeout);
  \<close>
\<close>

definition scroll_request :: "element \<Rightarrow> call" where
  "scroll_request element = Evaluate element [ScrollIntoView ''center'' ''center'' ''auto'']"

definition scrollIntoViewIfNeeded :: "world \<Rightarrow> element \<Rightarrow> nat \<Rightarrow> unit prog" where
  "scrollIntoViewIfNeeded w element timeout =
     await (waitForConnected w element timeout) (\<lambda>_.
     await (isIntersectingViewport w element) (\<lambda>isInViewport.
       if truthy isInViewport then return ()
       else await (request (reply_unit w) (scroll_request element)) (\<lambda>_.
            waitForInViewport w element timeout)))"

subsection \<open>Typing into a form field\<close>

text \<open>
  The block that types the user name and the one that types the password are the same
  code:
  \<^verbatim>\<open>
  const type = await element.evaluate(el => el.type);
  if (["textarea", "select-one", "text", "url", "tel", "search", "password", "number",
       "email"].includes(type)) {
    await element.type(usernameInput);
  } else {
    await element.focus();
    await element.evaluate((el, value) => {
      el.value = value;
      el.dispatchEvent(new Event('input', { bubbles: true }));
      el.dispatchEvent(new Event('change', { bubbles: true }));
    }, usernameInput);
  }
  \<close>
\<close>

definition typeable :: "string list" where
  "typeable = [''textarea'', ''select-one'', ''text'', ''url'', ''tel'', ''search'',
               ''password'', ''number'', ''email'']"

text \<open>\<open>Array.prototype.includes\<close> on an array of strings: only an equal string is found.\<close>

definition Array_includes :: "string list \<Rightarrow> js_value \<Rightarrow> bool" where
  "Array_includes items v = (case v of String str \<Rightarrow> str \<in> set items | _ \<Rightarrow> False)"

definition inject_request :: "element \<Rightarrow> string \<Rightarrow> call" where
  "inject_request element text =
     Evaluate element [SetValue text, DispatchEvent ''input'' True, DispatchEvent ''change'' True]"

definition type_into :: "world \<Rightarrow> element \<Rightarrow> string \<Rightarrow> unit prog" where
  "type_into w element text =
     await (request (reply_value w) (EvaluateType element)) (\<lambda>type.
       if Array_includes typeable type
       then request (reply_unit w) (TypeText element text)
       else await (request (reply_unit w) (Focus element)) (\<lambda>_.
            request (reply_unit w) (inject_request element text)))"

subsection \<open>The notifier\<close>

text \<open>
  The command line: \<open>-d\<close> (read by \<open>new Date(args.d)\<close>), \<open>-u\<close>, \<open>-p\<close>, \<open>-a\<close>, \<open>-c\<close>,
  \<open>-n\<close> (absent when no push is wanted) and \<open>-r\<close>.
\<close>

record config =
  args_d :: string
  usernameInput :: string
  passwordInput :: string
  appointmentId :: string
  consularId :: string
  userToken :: "string option"
  region :: string

definition currentDate :: "world \<Rightarrow> config \<Rightarrow> js_date" where
  "currentDate w cfg = Date_parse w (args_d cfg)"

definition log :: "string \<Rightarrow> unit prog" where
  "log msg = tell (Log msg)"

definition push_request :: "string \<Rightarrow> string \<Rightarrow> string \<Rightarrow> call" where
  "push_request token msg agent =
     HttpPost ''https://api.pushbullet.com/v2/pushes''
       [(''title'', ''US Visa Appointment Notification''), (''type'', ''note''), (''body'', msg)]
       [(''Access-Token'', token), (''User-Agent'', agent)]"

text \<open>
  \<^verbatim>\<open>
  async function notify(msg, agent) {
    log(msg);
    if (!userToken) { return; }
    ...
    await axios.post(apiEndpoint, data, { headers: headers });
  }
  \<close>
  \<open>!userToken\<close> holds for a missing token and for the empty string.
\<close>

definition notify :: "world \<Rightarrow> config \<Rightarrow> string \<Rightarrow> string \<Rightarrow> unit prog" where
  "notify w cfg msg agent =
     await (log msg) (\<lambda>_.
       case userToken cfg of
         None \<Rightarrow> return ()
       | Some token \<Rightarrow>
           if token = [] then return ()
           else request (reply_unit w) (push_request token msg agent))"

subsection \<open>The workflow: \<open>runPuppeteerLogic\<close>\<close>

text \<open>
  What a run came to. The script itself has no value for it: \<open>runPuppeteerLogic\<close>
  returns \<open>false\<close> when there is no date and \<open>undefined\<close> otherwise, and a failure is an
  exception that \<open>runLogic\<close> catches. The model returns the name of the branch taken.
\<close>

datatype run_outcome =
    ScheduledEarlierFound
  | NoEarlierAvailable
  | NoSlotsAtAll
  | Failed error
  | TimedOut

text \<open>\<open>firstDate < currentDate\<close> compares the time values; with \<open>NaN\<close> it is false.\<close>

fun date_less :: "js_date \<Rightarrow> js_date \<Rightarrow> bool" where
  "date_less (Time_Value a) (Time_Value b) = (a < b)"
| "date_less Invalid_Date b = False"
| "date_less a Invalid_Date = False"

definition earlier_message :: "world \<Rightarrow> js_date \<Rightarrow> string" where
  "earlier_message w firstDate =
     ''There is an earlier date available for the appointment! '' @ Date_toDateString w firstDate"

text \<open>The line logged when there are dates; a date in a template is put as \<open>toString\<close> gives it.\<close>

definition available_message :: "world \<Rightarrow> config \<Rightarrow> js_date \<Rightarrow> string" where
  "available_message w cfg firstDate =
     ''There are available dates. Your current date is '' @ Date_toString w (currentDate w cfg)
     @ ''. The first available date is '' @ Date_toString w firstDate"

text \<open>
  Lines 271 to 289, from \<open>const availableDates = response.data\<close> on. In the branch
  without dates the script closes the browser and returns from \<open>runPuppeteerLogic\<close>.
\<close>

definition decide :: "world \<Rightarrow> config \<Rightarrow> string \<Rightarrow> slot list \<Rightarrow> run_outcome prog" where
  "decide w cfg agent availableDates =
     (if length availableDates \<le> 0
      then await (log (''There are no available dates for consulate with id '' @ consularId cfg)) (\<lambda>_.
           await (request (reply_unit w) Close) (\<lambda>_.
           return NoSlotsAtAll))
      else
        (let firstDate = Date_parse w (date (availableDates ! 0)) in
         await (log (available_message w cfg firstDate)) (\<lambda>_.
         if date_less firstDate (currentDate w cfg)
         then await (log (earlier_message w firstDate)) (\<lambda>_.
              await (notify w cfg (earlier_message w firstDate) agent) (\<lambda>_.
              return ScheduledEarlierFound))
         else await (log (''No earlier date available yet. First available date: ''
                          @ Date_toDateString w firstDate)) (\<lambda>_.
              return NoEarlierAvailable))))"

text \<open>The constants of \<open>runLogic\<close> and the one page of the run.\<close>

definition timeout :: nat where
  "timeout = 5000"

definition navigationTimeout :: nat where
  "navigationTimeout = 60000"

definition page :: nat where
  "page = 0"

definition email_selectors :: "selector list" where
  "email_selectors = [Parts [''aria/Email *''], Parts [''#user_email'']]"

definition password_selectors :: "selector list" where
  "password_selectors = [Parts [''aria/Password''], Parts [''#user_password'']]"

definition agreement_selectors :: "selector list" where
  "agreement_selectors =
     [Parts [''#sign_in_form > div.radio-checkbox-group.margin-top-30 > label > div'']]"

definition login_selectors :: "selector list" where
  \<open>login_selectors =
     [Parts [''aria/Sign In[role="button"]''], Parts [''#new_user > p:nth-child(9) > input'']]\<close>

text \<open>The blocks of \<open>runPuppeteerLogic\<close>, in the order of the source.\<close>

definition set_viewport :: "world \<Rightarrow> unit prog" where
  "set_viewport w =
     await (request (reply_unit w) (SetViewport 2078 1479)) (\<lambda>_.
     log ''Viewport set.'')"

definition go_to_login_page :: "world \<Rightarrow> config \<Rightarrow> unit prog" where
  "go_to_login_page w cfg =
     await (request (reply_unit w)
              (Goto (''https://ais.usvisa-info.com/en-'' @ region cfg @ ''/niv/users/sign_in'')
                 ''domcontentloaded'')) (\<lambda>_.
     log ''Navigated to login page.'')"

definition click_username :: "world \<Rightarrow> unit prog" where
  "click_username w =
     await (waitForSelectors w email_selectors page (Options timeout True)) (\<lambda>element.
     await (scrollIntoViewIfNeeded w element timeout) (\<lambda>_.
     await (request (reply_unit w) (Click element 118 21.453125)) (\<lambda>_.
     log ''Username input clicked.'')))"

definition type_username :: "world \<Rightarrow> config \<Rightarrow> unit prog" where
  "type_username w cfg =
     await (waitForSelectors w email_selectors page (Options timeout True)) (\<lambda>element.
     await (scrollIntoViewIfNeeded w element timeout) (\<lambda>_.
     await (type_into w element (usernameInput cfg)) (\<lambda>_.
     log ''Username typed.'')))"

definition tab_to_password :: "world \<Rightarrow> unit prog" where
  "tab_to_password w =
     await (request (reply_unit w) (KeyboardDown ''Tab'')) (\<lambda>_.
     await (request (reply_unit w) (KeyboardUp ''Tab'')) (\<lambda>_.
     log ''Tabbed to password input.''))"

definition type_password :: "world \<Rightarrow> config \<Rightarrow> unit prog" where
  "type_password w cfg =
     await (waitForSelectors w password_selectors page (Options timeout True)) (\<lambda>element.
     await (scrollIntoViewIfNeeded w element timeout) (\<lambda>_.
     await (type_into w element (passwordInput cfg)) (\<lambda>_.
     log ''Password typed.'')))"

definition tick_agreement :: "world \<Rightarrow> unit prog" where
  "tick_agreement w =
     await (waitForSelectors w agreement_selectors page (Options timeout True)) (\<lambda>element.
     await (scrollIntoViewIfNeeded w element timeout) (\<lambda>_.
     await (request (reply_unit w) (Click element 9 16.34375)) (\<lambda>_.
     log ''Agreement checkbox ticked.'')))"

definition click_login :: "world \<Rightarrow> unit prog" where
  "click_login w =
     await (waitForSelectors w login_selectors page (Options timeout True)) (\<lambda>element.
     await (scrollIntoViewIfNeeded w element timeout) (\<lambda>_.
     await (request (reply_unit w) (Click element 34 11.34375)) (\<lambda>_.
     await (request (reply_unit w) WaitForNavigation) (\<lambda>_.
     log ''Login button clicked. Navigating...''))))"

definition days_request :: "config \<Rightarrow> string \<Rightarrow> cookie list \<Rightarrow> call" where
  "days_request cfg agent filteredCookies =
     HttpGet (''https://ais.usvisa-info.com/en-'' @ region cfg @ ''/niv/schedule/''
              @ appointmentId cfg @ ''/appointment/days/'' @ consularId cfg
              @ ''.json?appointments[expedite]=false'')
       [(''Accept'', Some ''application/json, text/javascript, */*; q=0.01''),
        (''Accept-Encoding'', Some ''gzip, deflate, br, zstd''),
        (''Accept-Language'', Some ''en-US,en;q=0.9''),
        (''Connection'', Some ''keep-alive''),
        (''Cookie'',
           (case map (\<lambda>c. name c @ ''='' @ cookie_value c) filteredCookies of
              [] \<Rightarrow> None | first # others \<Rightarrow> Some first)),
        (''Host'', Some ''ais.usvisa-info.com''),
        (''Referer'', Some (''https://ais.usvisa-info.com/en-'' @ region cfg @ ''/niv/schedule/''
                            @ appointmentId cfg @ ''/appointment'')),
        (''User-Agent'', Some agent),
        (''X-Requested-With'', Some ''XMLHttpRequest'')]"

definition check_available_dates :: "world \<Rightarrow> config \<Rightarrow> string \<Rightarrow> run_outcome prog" where
  "check_available_dates w cfg agent =
     await (log ''Fetching available dates...'') (\<lambda>_.
     await (request (reply_cookies w) Cookies) (\<lambda>cookies.
     await (request (reply_slots w)
              (days_request cfg agent (filter (\<lambda>c. name c = ''_yatri_session'') cookies)))
       (\<lambda>availableDates.
     decide w cfg agent availableDates)))"

text \<open>
  After the last block comes \<open>await browser.close()\<close>, which the early \<open>return false\<close>
  of the branch without dates has skipped.
\<close>

definition runPuppeteerLogic :: "world \<Rightarrow> config \<Rightarrow> string \<Rightarrow> run_outcome prog" where
  "runPuppeteerLogic w cfg agent =
     await (log ''Puppeteer initialized.'') (\<lambda>_.
     await (set_viewport w) (\<lambda>_.
     await (go_to_login_page w cfg) (\<lambda>_.
     await (click_username w) (\<lambda>_.
     await (type_username w cfg) (\<lambda>_.
     await (tab_to_password w) (\<lambda>_.
     await (type_password w cfg) (\<lambda>_.
     await (tick_agreement w) (\<lambda>_.
     await (click_login w) (\<lambda>_.
     await (check_available_dates w cfg agent) (\<lambda>decided.
       if decided = NoSlotsAtAll then return decided
       else await (request (reply_unit w) Close) (\<lambda>_. return decided)))))))))))"

subsection \<open>The run supervisor: \<open>runLogic\<close>\<close>

text \<open>
  The body of the \<open>try\<close> before the race: the browser is launched, its user agent is
  read and a page is opened.
\<close>

definition start_browser :: "world \<Rightarrow> string prog" where
  "start_browser w =
     await (request (reply_unit w) Launch) (\<lambda>browser.
     await (request (reply_string w) UserAgent) (\<lambda>agent.
     await (request (reply_unit w) NewPage) (\<lambda>page.
     await (tell (SetDefaultTimeout timeout)) (\<lambda>_.
     await (tell (SetDefaultNavigationTimeout navigationTimeout)) (\<lambda>_.
     return agent)))))"

fun issued_before :: "nat \<Rightarrow> event \<Rightarrow> bool" where
  "issued_before alarm (Ev t c) = (t < alarm)"

text \<open>
  \<^verbatim>\<open>
  log("Initializing Puppeteer...");
  const timeoutPromise = new Promise((resolve, reject) => {
    setTimeout(() => { reject(new Error('Script timed out. Terminating...')); }, 60000);
  });
  try {
    const browser = await puppeteer.launch();
    const agent = await browser.userAgent();
    const page = await browser.newPage();
    ...
    await Promise.race([timeoutPromise, runPuppeteerLogic(browser, page)]);
  } catch (error) { console.error(error); }
  \<close>
  The timer is set before the browser is launched. When it fires while the script is
  still before the race, its rejection has no handler: Node (from version 15 on; the
  README asks for 16) ends the process with that error, and neither the catch nor
  \<open>process.exit()\<close> is reached; that is the one case in which \<open>runLogic\<close> is left by an
  error. When it fires during the race, the race rejects, the catch writes the error to
  the console and the workflow is left where it is: what it would have issued later is
  never issued, since \<open>process.exit()\<close> follows. Otherwise the run ends as the workflow
  does, and an error thrown on the way is written to the console by the catch.
\<close>

definition runLogic :: "world \<Rightarrow> config \<Rightarrow> run_outcome prog" where
  "runLogic w cfg s =
     (case start_browser w
             (State (now s) (history s @ [Ev (now s) (Log ''Initializing Puppeteer...'')])) of
        Pending evs \<Rightarrow>
          Result (Inl (Error ''Script timed out. Terminating...'')) 60000
            (Ev (now s) (Log ''Initializing Puppeteer...'')
             # filter (issued_before (now s + 60000)) evs)
      | Result started d evs \<Rightarrow>
          if 60000 \<le> d
          then Result (Inl (Error ''Script timed out. Terminating...'')) 60000
                 (Ev (now s) (Log ''Initializing Puppeteer...'')
                  # filter (issued_before (now s + 60000)) evs)
          else
            (case started of
               Inl err \<Rightarrow>
                 Result (Inr (Failed err)) d
                   (Ev (now s) (Log ''Initializing Puppeteer...'') # evs
                    @ [Ev (now s + d) (ConsoleError err)])
             | Inr agent \<Rightarrow>
                 (case runPuppeteerLogic w cfg agent
                         (State (now s + d)
                            (history s @ Ev (now s) (Log ''Initializing Puppeteer...'') # evs)) of
                    Pending evs' \<Rightarrow>
                      Result (Inr TimedOut) 60000
                        (Ev (now s) (Log ''Initializing Puppeteer...'') # evs
                         @ filter (issued_before (now s + 60000)) evs'
                         @ [Ev (now s + 60000)
                              (ConsoleError (Error ''Script timed out. Terminating...''))])
                  | Result out' d' evs' \<Rightarrow>
                      if d + d' < 60000
                      then (case out' of
                              Inr decided \<Rightarrow>
                                Result (Inr decided) (d + d')
                                  (Ev (now s) (Log ''Initializing Puppeteer...'') # evs @ evs')
                            | Inl err \<Rightarrow>
                                Result (Inr (Failed err)) (d + d')
                                  (Ev (now s) (Log ''Initializing Puppeteer...'') # evs @ evs'
                                   @ [Ev (now s + d + d') (ConsoleError err)]))
                      else Result (Inr TimedOut) 60000
                             (Ev (now s) (Log ''Initializing Puppeteer...'') # evs
                              @ filter (issued_before (now s + 60000)) evs'
                              @ [Ev (now s + 60000)
                                   (ConsoleError (Error ''Script timed out. Terminating...''))]))))"

text \<open>\<open>await runLogic(); process.exit()\<close>.\<close>

definition main :: "world \<Rightarrow> config \<Rightarrow> run_outcome prog" where
  "main w cfg =
     await (runLogic w cfg) (\<lambda>ended.
     await (tell ProcessExit) (\<lambda>_.
     return ended))"

text \<open>How often the browser was asked to close.\<close>

definition closes :: "event list \<Rightarrow> nat" where
  "closes evs = length (filter (\<lambda>ev. case ev of Ev t c \<Rightarrow> c = Close) evs)"

subsection \<open>A JavaScript engine's dates, in UTC\<close>

text \<open>Days since 1 January 1970 of a date of the proleptic Gregorian calendar, and back.\<close>

definition days_from_civil :: "int \<Rightarrow> int \<Rightarrow> int \<Rightarrow> int" where
  "days_from_civil y m d =
     (let y' = (if m \<le> 2 then y - 1 else y);
          era = y' div 400;
          yoe = y' - era * 400;
          doy = (153 * (if 2 < m then m - 3 else m + 9) + 2) div 5 + d - 1;
          doe = yoe * 365 + yoe div 4 - yoe div 100 + doy
      in era * 146097 + doe - 719468)"

definition civil_from_days :: "int \<Rightarrow> int \<times> int \<times> int" where
  "civil_from_days z0 =
     (let z = z0 + 719468;
          era = z div 146097;
          doe = z - era * 146097;
          yoe = (doe - doe div 1460 + doe div 36524 - doe div 146096) div 365;
          doy = doe - (365 * yoe + yoe div 4 - yoe div 100);
          mp = (5 * doy + 2) div 153;
          d = doy - (153 * mp + 2) div 5 + 1;
          m = (if mp < 10 then mp + 3 else mp - 9)
      in (if m \<le> 2 then yoe + era * 400 + 1 else yoe + era * 400, m, d))"

fun decimal :: "nat \<Rightarrow> string" where
  "decimal n = (if n < 10 then [''0123456789'' ! n] else decimal (n div 10) @ [''0123456789'' ! (n mod 10)])"

declare decimal.simps [simp del]

definition padded :: "nat \<Rightarrow> nat \<Rightarrow> string" where
  "padded width n = replicate (width - length (decimal n)) (CHR ''0'') @ decimal n"

definition digit_of :: "char \<Rightarrow> int option" where
  "digit_of c =
     (if (48::nat) \<le> of_char c \<and> (of_char c :: nat) \<le> 57 then Some (int (of_char c) - 48) else None)"

fun number_of :: "int \<Rightarrow> string \<Rightarrow> int option" where
  "number_of acc [] = Some acc"
| "number_of acc (c # cs) =
     (case digit_of c of None \<Rightarrow> None | Some v \<Rightarrow> number_of (10 * acc + v) cs)"

definition days_in_month :: "int \<Rightarrow> int \<Rightarrow> int" where
  "days_in_month y m =
     (if m = 2 then (if y mod 4 = 0 \<and> (y mod 100 \<noteq> 0 \<or> y mod 400 = 0) then 29 else 28)
      else if m = 4 \<or> m = 6 \<or> m = 9 \<or> m = 11 then 30 else 31)"

text \<open>
  The date-only form \<open>YYYY-MM-DD\<close> of the command line and of the portal, with a month
  and a day that exist: every engine reads it as midnight UTC of that day. What an
  engine makes of any other string (other forms of dates, dates with a time, days out
  of range) differs from engine to engine and is left open: \<open>other_strings\<close> is a
  function of which nothing is known.
\<close>

definition other_strings :: "string \<Rightarrow> js_date" where
  "other_strings = undefined"

definition iso_date_only :: "string \<Rightarrow> js_date" where
  "iso_date_only str =
     (if length str = 10 \<and> str ! 4 = CHR ''-'' \<and> str ! 7 = CHR ''-''
      then (case (number_of 0 (take 4 str), number_of 0 (take 2 (drop 5 str)), number_of 0 (drop 8 str)) of
              (Some y, Some m, Some d) \<Rightarrow>
                if 1 \<le> m \<and> m \<le> 12 \<and> 1 \<le> d \<and> d \<le> days_in_month y m
                then Time_Value (86400000 * days_from_civil y m d)
                else other_strings str
            | _ \<Rightarrow> other_strings str)
      else other_strings str)"

text \<open>\<open>Date.prototype.toDateString\<close> and \<open>toString\<close> of ECMA-262, in the zone UTC.\<close>

definition weekday_names :: "string list" where
  "weekday_names = [''Sun'', ''Mon'', ''Tue'', ''Wed'', ''Thu'', ''Fri'', ''Sat'']"

definition month_names :: "string list" where
  "month_names = [''Jan'', ''Feb'', ''Mar'', ''Apr'', ''May'', ''Jun'',
                  ''Jul'', ''Aug'', ''Sep'', ''Oct'', ''Nov'', ''Dec'']"

definition DateString :: "int \<Rightarrow> string" where
  "DateString t =
     (let day = t div 86400000;
          ymd = civil_from_days day;
          y = fst ymd; m = fst (snd ymd); d = snd (snd ymd)
      in weekday_names ! nat ((day + 4) mod 7) @ '' '' @ month_names ! nat (m - 1) @ '' ''
         @ padded 2 (nat d) @ '' '' @ (if 0 \<le> y then [] else ''-'') @ padded 4 (nat \<bar>y\<bar>))"

definition TimeString :: "int \<Rightarrow> string" where
  "TimeString t =
     (let ms = t mod 86400000
      in padded 2 (nat (ms div 3600000)) @ '':'' @ padded 2 (nat (ms div 60000 mod 60)) @ '':''
         @ padded 2 (nat (ms div 1000 mod 60)) @ '' GMT'')"

definition toDateString_utc :: "js_date \<Rightarrow> string" where
  "toDateString_utc d = (case d of Invalid_Date \<Rightarrow> ''Invalid Date'' | Time_Value t \<Rightarrow> DateString t)"

definition toString_utc :: "js_date \<Rightarrow> string" where
  "toString_utc d =
     (case d of
        Invalid_Date \<Rightarrow> ''Invalid Date''
      | Time_Value t \<Rightarrow> DateString t @ '' '' @ TimeString t @ ''+0000 (Coordinated Universal Time)'')"



subsection \<open>Worlds and command lines to run the script in\<close>

text \<open>
  A portal that answers every request: every lookup resolves to element 1, which is
  connected, in the viewport and of type \<open>email\<close>; the session cookie is set; the query
  returns the given dates. The engine's zone is UTC.
\<close>

definition portal :: "slot list \<Rightarrow> world" where
  "portal slots =
     \<lparr> reply_unit = (\<lambda>s c. (Inr (), 20)),
       reply_element = (\<lambda>s c. (Inr (Some 1), 30)),
       reply_value =
         (\<lambda>s c. case c of
                  EvaluateType e \<Rightarrow> (Inr (String ''email''), 5)
                | _ \<Rightarrow> (Inr (Boolean True), 5)),
       reply_string = (\<lambda>s c. (Inr ''Mozilla/5.0 HeadlessChrome'', 5)),
       reply_cookies = (\<lambda>s c. (Inr [\<lparr> name = ''_yatri_session'', cookie_value = ''abc'' \<rparr>], 5)),
       reply_slots = (\<lambda>s c. (Inr slots, 300)),
       Date_parse = iso_date_only,
       Date_toString = toString_utc,
       Date_toDateString = toDateString_utc \<rparr>"

text \<open>The same portal, with a push service that rejects the request.\<close>

definition push_rejected :: "slot list \<Rightarrow> world" where
  "push_rejected slots =
     (portal slots)
       \<lparr> reply_unit :=
           (\<lambda>s c. case c of
                    HttpPost url body headers \<Rightarrow> (Inl (Error ''Request failed with status code 401''), 150)
                  | _ \<Rightarrow> (Inr (), 20)) \<rparr>"

text \<open>The same portal, with a login page on which no lookup resolves within its 5000 ms.\<close>

definition no_login_form :: "slot list \<Rightarrow> world" where
  "no_login_form slots =
     (portal slots)
       \<lparr> reply_element := (\<lambda>s c. (Inl (Error ''waiting for selector failed: timeout 5000ms exceeded''), 5000)) \<rparr>"

text \<open>The command line of the README.\<close>

definition readme_config :: config where
  "readme_config =
     \<lparr> args_d = ''2022-06-22'', usernameInput = ''username'', passwordInput = ''password'',
       appointmentId = ''359734258'', consularId = ''95'',
       userToken = Some ''pu5hov3ru53rk3y'', region = ''ca'' \<rparr>"

text \<open>
  The same portal, with a login page that has lost the label \<open>Email *\<close>: the lookup by
  that label runs into its timeout, every other lookup resolves to element 7.
\<close>

definition label_gone :: world where
  "label_gone =
     (portal [])
       \<lparr> reply_element :=
           (\<lambda>s c. case c of
                    WaitForSelector from part opts \<Rightarrow>
                      if part = ''aria/Email *''
                      then (Inl (Error ''waiting for selector failed: timeout exceeded''), timeout_ms opts)
                      else (Inr (Some 7), 40)
                  | _ \<Rightarrow> (Inr (Some 7), 10)) \<rparr>"

text \<open>
  The same portal, with an element that is not in the document: its \<open>isConnected\<close> is
  false and it never intersects the viewport.
\<close>

definition detached :: world where
  "detached = (portal []) \<lparr> reply_value := (\<lambda>s c. (Inr (Boolean False), 5)) \<rparr>"

text \<open>
  The same portal, with an element below the fold: it intersects the viewport once a
  scroll into view has been requested for it.
\<close>

definition below_the_fold :: world where
  "below_the_fold =
     (portal [])
       \<lparr> reply_value :=
           (\<lambda>s c. case c of
                    IsIntersectingViewport e threshold \<Rightarrow>
                      (Inr (Boolean (list_ex (\<lambda>ev. case ev of Ev t c' \<Rightarrow> c' = scroll_request e)
                                       (history s))), 5)
                  | _ \<Rightarrow> (Inr (Boolean True), 5)) \<rparr>"

text \<open>The same portal, with a page that navigates away: no property can be read any more.\<close>

definition context_lost :: world where
  "context_lost =
     (portal []) \<lparr> reply_value := (\<lambda>s c. (Inl (Error ''Execution context was destroyed''), 5)) \<rparr>"

text \<open>The same portal, with a check box where the field is looked for.\<close>

definition checkbox_field :: world where
  "checkbox_field = (portal []) \<lparr> reply_value := (\<lambda>s c. (Inr (String ''checkbox''), 5)) \<rparr>"

subsection \<open>Notions the properties are stated with\<close>

text \<open>Predicates to run the poller on: each invocation takes 20 ms.\<close>

definition rejecting :: "js_value prog" where
  "rejecting s = Result (Inl (Error ''Execution context was destroyed'')) 20 []"

text \<open>A predicate whose one invocation takes 6 s and then throws.\<close>

definition rejecting_late :: "js_value prog" where
  "rejecting_late s = Result (Inl (Error ''Execution context was destroyed'')) 6000 []"

definition truthy_from_200 :: "js_value prog" where
  "truthy_from_200 s = Result (Inr (Boolean (200 \<le> now s))) 20 []"

definition never_truthy :: "js_value prog" where
  "never_truthy s = Result (Inr (Boolean False)) 20 []"

text \<open>A predicate whose one invocation never settles.\<close>

definition never_settling :: "js_value prog" where
  "never_settling s = Pending []"

definition rejecting_from_200 :: "js_value prog" where
  "rejecting_from_200 s =
     Result (if now s < 200 then Inr (Boolean False)
             else Inl (Error ''Execution context was destroyed'')) 20 []"

text \<open>A world in which no request without an answer of its own (a click, a push, the
  closing of the browser) is ever rejected.\<close>

definition obliging :: "world \<Rightarrow> bool" where
  "obliging w = (\<forall>s c. fst (reply_unit w s c) = Inr ())"

text \<open>
  The workflow up to the answer of the query for the dates: the blocks of
  \<open>runPuppeteerLogic\<close> from the first log line to \<open>axios.get\<close>.
\<close>

definition reach_decision :: "world \<Rightarrow> config \<Rightarrow> string \<Rightarrow> slot list prog" where
  "reach_decision w cfg agent =
     await (log ''Puppeteer initialized.'') (\<lambda>_.
     await (set_viewport w) (\<lambda>_.
     await (go_to_login_page w cfg) (\<lambda>_.
     await (click_username w) (\<lambda>_.
     await (type_username w cfg) (\<lambda>_.
     await (tab_to_password w) (\<lambda>_.
     await (type_password w cfg) (\<lambda>_.
     await (tick_agreement w) (\<lambda>_.
     await (click_login w) (\<lambda>_.
     await (log ''Fetching available dates...'') (\<lambda>_.
     await (request (reply_cookies w) Cookies) (\<lambda>cookies.
     request (reply_slots w)
       (days_request cfg agent (filter (\<lambda>c. name c = ''_yatri_session'') cookies)))))))))))))"

text \<open>The messages handed to the push service.\<close>

definition pushed :: "event list \<Rightarrow> string list" where
  "pushed evs =
     concat (map (\<lambda>ev. case ev of
                         Ev t (HttpPost url body headers) \<Rightarrow>
                           map snd (filter (\<lambda>field. fst field = ''body'') body)
                       | _ \<Rightarrow> []) evs)"

section \<open>Properties\<close>

lemma marks_append: "marks (xs @ ys) = marks xs @ marks ys"
  by (simp add: marks_def map_filter_def)

lemma marks_spy:
  assumes "unmarked fn" and "fn s = Result out d evs"
  shows "marks (emitted (spy fn s)) = [Started (now s), Ended (now s + d) (how_settled out)]"
proof -
  have "marks evs = []"
    using assms unfolding unmarked_def by (metis result.sel(3))
  then show ?thesis
    using assms(2) by (simp add: spy_def marks_def map_filter_def mark_of_def)
qed

lemma marks_spy_pending:
  assumes "unmarked fn" and "fn s = Pending evs"
  shows "marks (emitted (spy fn s)) = [Started (now s)]"
proof -
  have "marks evs = []"
    using assms unfolding unmarked_def by (metis result.sel(4))
  then show ?thesis
    using assms(2) by (simp add: spy_def marks_def map_filter_def mark_of_def)
qed

lemma one_at_a_time_step:
  "t \<le> u \<Longrightarrow> ms \<noteq> [] \<Longrightarrow> hd ms = Started (u + 100) \<Longrightarrow> one_at_a_time ms \<Longrightarrow>
   one_at_a_time (Started t # Ended u Falsy # ms)"
  by (cases ms) auto

lemma loop_spy:
  assumes "unmarked fn"
  shows "marks (emitted (waitForFunction_loop (spy fn) dl s)) \<noteq> [] \<and>
         hd (marks (emitted (waitForFunction_loop (spy fn) dl s))) = Started (now s) \<and>
         one_at_a_time (marks (emitted (waitForFunction_loop (spy fn) dl s)))"
proof (induction "spy fn" dl s rule: waitForFunction_loop.induct)
  case (1 dl s)
  show ?case
  proof (cases "fn s")
    case (Pending evs)
    have sp: "spy fn s = Pending (Ev (now s) Invoked # evs)"
      by (simp add: spy_def Pending)
    have "marks (Ev (now s) Invoked # evs) = [Started (now s)]"
      using marks_spy_pending[OF assms Pending] by (simp add: sp)
    then show ?thesis
      by (subst (1 2 3) waitForFunction_loop.simps) (simp add: sp)
  next
    case (Result out d evs)
    define sevs where "sevs = Ev (now s) Invoked # evs @ [Ev (now s + d) (Settled (how_settled out))]"
    have sp: "spy fn s = Result out d sevs"
      by (simp add: spy_def Result sevs_def)
    have m: "marks sevs = [Started (now s), Ended (now s + d) (how_settled out)]"
      using marks_spy[OF assms Result] by (simp add: sp)
    show ?thesis
    proof (cases "\<exists>v. out = Inr v \<and> \<not> truthy v \<and> now s + d + 100 < dl")
      case False
      then have "emitted (waitForFunction_loop (spy fn) dl s) = sevs"
        by (subst waitForFunction_loop.simps) (auto simp: sp split: sum.splits)
      then show ?thesis
        by (simp add: m)
    next
      case True
      then obtain v where v: "out = Inr v" "\<not> truthy v" "now s + d + 100 < dl"
        by auto
      let ?s' = "State (now s + d + 100) (history s @ sevs)"
      let ?r' = "waitForFunction_loop (spy fn) dl ?s'"
      have IH: "marks (emitted ?r') \<noteq> [] \<and> hd (marks (emitted ?r')) = Started (now s + d + 100) \<and>
                one_at_a_time (marks (emitted ?r'))"
        using "1"[OF sp v(1) v(2) v(3)] by simp
      have unf: "emitted (waitForFunction_loop (spy fn) dl s) = sevs @ emitted ?r'"
        using v by (subst waitForFunction_loop.simps) (simp add: sp split: result.splits)
      have hs: "how_settled out = Falsy"
        using v by (simp add: how_settled_def)
      have "one_at_a_time (marks sevs @ marks (emitted ?r'))"
        unfolding m hs using one_at_a_time_step[of "now s" "now s + d" "marks (emitted ?r')"] IH
        by simp
      then show ?thesis
        by (simp add: unf marks_append m)
    qed
  qed
qed

lemma loop_after_rounds:
  "falsy_rounds p dl k s = Some (d, evs) \<Longrightarrow>
   waitForFunction_loop p dl s =
     (case waitForFunction_loop p dl (State (now s + d) (history s @ evs)) of
        Result out' d' evs' \<Rightarrow> Result out' (d + d') (evs @ evs')
      | Pending evs' \<Rightarrow> Pending (evs @ evs'))"
proof (induction k arbitrary: s d evs)
  case 0
  then show ?case
    by (cases "waitForFunction_loop p dl s") simp_all
next
  case (Suc k)
  from Suc.prems obtain v d0 evs0 d1 evs1 where
    p: "p s = Result (Inr v) d0 evs0" and f: "\<not> truthy v" and go: "now s + d0 + 100 < dl" and
    r: "falsy_rounds p dl k (State (now s + d0 + 100) (history s @ evs0)) = Some (d1, evs1)" and
    d: "d = d0 + 100 + d1" and evs: "evs = evs0 @ evs1"
    by (auto split: result.splits sum.splits if_splits option.splits)
  let ?s' = "State (now s + d0 + 100) (history s @ evs0)"
  let ?s'' = "State (now s + d) (history s @ evs)"
  have s'': "State (now ?s' + d1) (history ?s' @ evs1) = ?s''"
    by (simp add: d evs add.assoc)
  have step: "waitForFunction_loop p dl s =
        (case waitForFunction_loop p dl ?s' of
           Result out' d' evs' \<Rightarrow> Result out' (d0 + 100 + d') (evs0 @ evs')
         | Pending evs' \<Rightarrow> Pending (evs0 @ evs'))"
    using p f go by (subst waitForFunction_loop.simps) simp
  have "waitForFunction_loop p dl ?s' =
        (case waitForFunction_loop p dl ?s'' of
           Result out' d' evs' \<Rightarrow> Result out' (d1 + d') (evs1 @ evs')
         | Pending evs' \<Rightarrow> Pending (evs1 @ evs'))"
    using Suc.IH[OF r] unfolding s'' .
  then show ?case
    unfolding step
    by (cases "waitForFunction_loop p dl ?s''") (simp_all add: d evs add.assoc)
qed

text \<open>The round after which the loop is left: the predicate throws, never settles or
  settles truthy in it, or the flag is found cleared after its pause.\<close>

lemma rounds_end:
  "\<exists>k d evs. falsy_rounds p dl k s = Some (d, evs) \<and>
     (\<forall>v d' evs'. p (State (now s + d) (history s @ evs)) = Result (Inr v) d' evs' \<longrightarrow>
        truthy v \<or> dl \<le> now s + d + d' + 100)"
proof (induction p dl s rule: waitForFunction_loop.induct)
  case (1 p dl s)
  show ?case
  proof (cases "\<exists>v d0 evs0. p s = Result (Inr v) d0 evs0 \<and> \<not> truthy v \<and> now s + d0 + 100 < dl")
    case False
    have "falsy_rounds p dl 0 s = Some (0, [])"
      by simp
    moreover have "\<forall>v d' evs'. p (State (now s + 0) (history s @ [])) = Result (Inr v) d' evs' \<longrightarrow>
        truthy v \<or> dl \<le> now s + 0 + d' + 100"
      using False by (auto simp: not_less)
    ultimately show ?thesis
      by blast
  next
    case True
    then obtain v d0 evs0 where
      p: "p s = Result (Inr v) d0 evs0" and f: "\<not> truthy v" and go: "now s + d0 + 100 < dl"
      by auto
    let ?s' = "State (now s + d0 + 100) (history s @ evs0)"
    from "1"[OF p refl f go] obtain k d1 evs1 where
      r: "falsy_rounds p dl k ?s' = Some (d1, evs1)" and
      e: "\<forall>v d' evs'. p (State (now ?s' + d1) (history ?s' @ evs1)) = Result (Inr v) d' evs' \<longrightarrow>
            truthy v \<or> dl \<le> now ?s' + d1 + d' + 100"
      by blast
    have "falsy_rounds p dl (Suc k) s = Some (d0 + 100 + d1, evs0 @ evs1)"
      using p f go r by simp
    moreover have "\<forall>v d' evs'.
        p (State (now s + (d0 + 100 + d1)) (history s @ evs0 @ evs1)) = Result (Inr v) d' evs' \<longrightarrow>
        truthy v \<or> dl \<le> now s + (d0 + 100 + d1) + d' + 100"
      using e by (simp add: add.assoc)
    ultimately show ?thesis
      by blast
  qed
qed

lemma loop_leaves:
  "waitForFunction_loop p dl s =
     (case p s of
        Result (Inl e) d evs \<Rightarrow> Result (Inl e) d evs
      | Result (Inr v) d evs \<Rightarrow>
          if truthy v then Result (Inr ()) d evs
          else if now s + d + 100 < dl
          then (case waitForFunction_loop p dl (State (now s + d + 100) (history s @ evs)) of
                  Result out' d' evs' \<Rightarrow> Result out' (d + 100 + d') (evs @ evs')
                | Pending evs' \<Rightarrow> Pending (evs @ evs'))
          else Result (Inl (Error ''Timed out'')) (d + 100) evs
      | Pending evs \<Rightarrow> Pending evs)"
  by (rule waitForFunction_loop.simps)

text \<open>
  C10. Whichever invocation of the predicate throws, the first or, after \<open>k\<close> rounds
  with a falsy result, the next one: the poller rejects with the error of the predicate
  (not with \<open>Timed out\<close>), at the moment the invocation settles (\<open>d'\<close> after it began,
  with no pause and no wait for the deadline), and what it has issued ends with what
  that invocation issued: the predicate is not invoked again. This is so for every
  timeout.
\<close>

theorem waitForFunction_propagates_throw:
  assumes "falsy_rounds p (now s + setTimeout_delay limit) k s = Some (d, evs)"
    and "p (State (now s + d) (history s @ evs)) = Result (Inl e) d' evs'"
  shows "waitForFunction p limit s = Result (Inl e) (d + d') (evs @ evs')"
proof -
  have "waitForFunction_loop p (now s + setTimeout_delay limit)
          (State (now s + d) (history s @ evs)) = Result (Inl e) d' evs'"
    using assms(2) by (subst loop_leaves) simp
  then show ?thesis
    using loop_after_rounds[OF assms(1)] by (simp add: waitForFunction_def)
qed

lemmas poller_defs = waitForFunction_def waitForFunction_loop.simps setTimeout_delay_def

theorem waitForFunction_propagates_throw_witness:
  "falsy_rounds rejecting_from_200 (now (State 0 []) + setTimeout_delay 5000) 2 (State 0 [])
     = Some (240, []) \<and>
   rejecting_from_200 (State 240 []) = Result (Inl (Error ''Execution context was destroyed'')) 20 [] \<and>
   waitForFunction rejecting_from_200 5000 (State 0 []) =
     Result (Inl (Error ''Execution context was destroyed'')) 260 [] \<and>
   falsy_rounds rejecting (now (State 7 []) + setTimeout_delay 0) 0 (State 7 []) = Some (0, []) \<and>
   waitForFunction rejecting 0 (State 7 []) =
     Result (Inl (Error ''Execution context was destroyed'')) 20 []"
proof -
  have h1: "falsy_rounds rejecting_from_200 (now (State 0 []) + setTimeout_delay 5000) 2 (State 0 [])
     = Some (240, [])"
    by (simp add: numeral_2_eq_2 rejecting_from_200_def setTimeout_delay_def)
  have h2: "rejecting_from_200 (State (now (State 0 []) + 240) (history (State 0 []) @ [])) =
     Result (Inl (Error ''Execution context was destroyed'')) 20 []"
    by (simp add: rejecting_from_200_def)
  have k1: "falsy_rounds rejecting (now (State 7 []) + setTimeout_delay 0) 0 (State 7 []) = Some (0, [])"
    by simp
  have k2: "rejecting (State (now (State 7 []) + 0) (history (State 7 []) @ [])) =
     Result (Inl (Error ''Execution context was destroyed'')) 20 []"
    by (simp add: rejecting_def)
  show ?thesis
    using waitForFunction_propagates_throw[OF h1 h2] waitForFunction_propagates_throw[OF k1 k2]
      h1 h2 k1
    by simp
qed

text \<open>
  C5, as the code has it. For every predicate, the invocations are made one at a time,
  the first at the start and each further one exactly 100 ms after the one before has
  settled with a falsy value. The poller goes through some number \<open>k\<close> of rounds in which
  the predicate settles falsy and the flag is still set after the pause, and is left in
  the round after them. If the predicate settles truthy in that round, the poller
  resolves at that very moment. If it settles falsy, the flag is found cleared after the
  pause: the deadline (the start plus the delay of the timer, which is the timeout
  from 1 to \<open>2^31 - 1\<close> ms and 1 ms otherwise) has come, and the poller rejects with
  \<open>Timed out\<close> at this first test of the flag that is not before the deadline. If the
  predicate throws, the poller rejects with its error at once, and if it never settles,
  neither does the poller.
\<close>

theorem waitForFunction_polls:
  "(unmarked fn \<longrightarrow>
      one_at_a_time (marks (emitted (waitForFunction (spy fn) limit s))) \<and>
      hd (marks (emitted (waitForFunction (spy fn) limit s))) = Started (now s)) \<and>
   (\<exists>k d evs.
      falsy_rounds p (now s + setTimeout_delay limit) k s = Some (d, evs) \<and>
      (case p (State (now s + d) (history s @ evs)) of
         Result (Inr v) d' evs' \<Rightarrow>
           if truthy v
           then waitForFunction p limit s = Result (Inr ()) (d + d') (evs @ evs')
           else now s + setTimeout_delay limit \<le> now s + d + d' + 100 \<and>
                waitForFunction p limit s =
                  Result (Inl (Error ''Timed out'')) (d + d' + 100) (evs @ evs')
       | Result (Inl e) d' evs' \<Rightarrow>
           waitForFunction p limit s = Result (Inl e) (d + d') (evs @ evs')
       | Pending evs' \<Rightarrow> waitForFunction p limit s = Pending (evs @ evs')))"
proof (intro conjI impI)
  assume "unmarked fn"
  from loop_spy[OF this, of "now s + setTimeout_delay limit" s]
  show "one_at_a_time (marks (emitted (waitForFunction (spy fn) limit s)))"
    and "hd (marks (emitted (waitForFunction (spy fn) limit s))) = Started (now s)"
    by (simp_all add: waitForFunction_def)
next
  let ?dl = "now s + setTimeout_delay limit"
  from rounds_end[of p ?dl s] obtain k d evs where
    r: "falsy_rounds p ?dl k s = Some (d, evs)" and
    e: "\<forall>v d' evs'. p (State (now s + d) (history s @ evs)) = Result (Inr v) d' evs' \<longrightarrow>
          truthy v \<or> ?dl \<le> now s + d + d' + 100"
    by blast
  let ?s' = "State (now s + d) (history s @ evs)"
  have w: "waitForFunction p limit s =
     (case waitForFunction_loop p ?dl ?s' of
        Result out' d' evs' \<Rightarrow> Result out' (d + d') (evs @ evs')
      | Pending evs' \<Rightarrow> Pending (evs @ evs'))"
    using loop_after_rounds[OF r] by (simp add: waitForFunction_def)
  have "case p ?s' of
         Result (Inr v) d' evs' \<Rightarrow>
           if truthy v
           then waitForFunction p limit s = Result (Inr ()) (d + d') (evs @ evs')
           else ?dl \<le> now s + d + d' + 100 \<and>
                waitForFunction p limit s =
                  Result (Inl (Error ''Timed out'')) (d + d' + 100) (evs @ evs')
       | Result (Inl e) d' evs' \<Rightarrow>
           waitForFunction p limit s = Result (Inl e) (d + d') (evs @ evs')
       | Pending evs' \<Rightarrow> waitForFunction p limit s = Pending (evs @ evs')"
  proof (cases "p ?s'")
    case (Pending evs')
    then show ?thesis
      unfolding w by (subst loop_leaves) simp
  next
    case (Result out d' evs')
    show ?thesis
    proof (cases out)
      case (Inl err)
      with Result show ?thesis
        unfolding w by (subst loop_leaves) simp
    next
      case (Inr v)
      show ?thesis
      proof (cases "truthy v")
        case True
        with Result Inr show ?thesis
          unfolding w by (subst loop_leaves) simp
      next
        case False
        with e Result Inr have late: "?dl \<le> now s + d + d' + 100"
          by blast
        then have "\<not> now ?s' + d' + 100 < ?dl"
          by simp
        with Result Inr False late show ?thesis
          unfolding w by (subst loop_leaves) (simp add: add.assoc)
      qed
    qed
  qed
  with r show "\<exists>k d evs.
      falsy_rounds p ?dl k s = Some (d, evs) \<and>
      (case p (State (now s + d) (history s @ evs)) of
         Result (Inr v) d' evs' \<Rightarrow>
           if truthy v
           then waitForFunction p limit s = Result (Inr ()) (d + d') (evs @ evs')
           else ?dl \<le> now s + d + d' + 100 \<and>
                waitForFunction p limit s =
                  Result (Inl (Error ''Timed out'')) (d + d' + 100) (evs @ evs')
       | Result (Inl e) d' evs' \<Rightarrow>
           waitForFunction p limit s = Result (Inl e) (d + d') (evs @ evs')
       | Pending evs' \<Rightarrow> waitForFunction p limit s = Pending (evs @ evs'))"
    by blast
qed

theorem waitForFunction_polls_witness:
  "unmarked truthy_from_200 \<and>
   marks (emitted (waitForFunction (spy truthy_from_200) 5000 (State 0 []))) =
     [Started 0, Ended 20 Falsy, Started 120, Ended 140 Falsy, Started 240, Ended 260 Truthy] \<and>
   one_at_a_time (marks (emitted (waitForFunction (spy truthy_from_200) 5000 (State 0 [])))) \<and>
   falsy_rounds truthy_from_200 (0 + setTimeout_delay 5000) 2 (State 0 []) = Some (240, []) \<and>
   waitForFunction truthy_from_200 5000 (State 0 []) = Result (Inr ()) 260 [] \<and>
   falsy_rounds never_truthy (0 + setTimeout_delay 300) 2 (State 0 []) = Some (240, []) \<and>
   0 + setTimeout_delay 300 \<le> 0 + 240 + 20 + (100::nat) \<and>
   waitForFunction never_truthy 300 (State 0 []) = Result (Inl (Error ''Timed out'')) 360 [] \<and>
   waitForFunction never_truthy 2147483648 (State 0 []) = Result (Inl (Error ''Timed out'')) 120 [] \<and>
   waitForFunction never_settling 300 (State 0 []) = Pending []"
proof -
  have h: "unmarked truthy_from_200"
    by (simp add: unmarked_def truthy_from_200_def marks_def map_filter_def)
  have ev: "waitForFunction (spy truthy_from_200) 5000 (State 0 []) =
        Result (Inr ()) 260
          [Ev 0 Invoked, Ev 20 (Settled Falsy), Ev 120 Invoked, Ev 140 (Settled Falsy),
           Ev 240 Invoked, Ev 260 (Settled Truthy)]"
    by (simp add: poller_defs spy_def truthy_from_200_def how_settled_def)
  have r1: "falsy_rounds truthy_from_200 (0 + setTimeout_delay 5000) 2 (State 0 []) = Some (240, [])"
    by (simp add: numeral_2_eq_2 truthy_from_200_def setTimeout_delay_def)
  have r2: "falsy_rounds never_truthy (0 + setTimeout_delay 300) 2 (State 0 []) = Some (240, [])"
    by (simp add: numeral_2_eq_2 never_truthy_def setTimeout_delay_def)
  have e1: "waitForFunction truthy_from_200 5000 (State 0 []) = Result (Inr ()) 260 []"
    by (simp add: poller_defs truthy_from_200_def)
  have e2: "waitForFunction never_truthy 300 (State 0 []) = Result (Inl (Error ''Timed out'')) 360 []"
    by (simp add: poller_defs never_truthy_def)
  have e3: "waitForFunction never_truthy 2147483648 (State 0 []) =
              Result (Inl (Error ''Timed out'')) 120 []"
    by (simp add: poller_defs never_truthy_def)
  have e4: "waitForFunction never_settling 300 (State 0 []) = Pending []"
    by (simp add: poller_defs never_settling_def)
  show ?thesis
    using waitForFunction_polls[of truthy_from_200 5000 "State 0 []" truthy_from_200] h r1 r2 e1 e2 e3 e4
    by (simp add: ev marks_def map_filter_def mark_of_def setTimeout_delay_def)
qed

text \<open>
  C5 as stated fails for a predicate that throws. When it throws after 20 ms, the poller
  is over after 20 ms, long before the deadline of 5000 ms, without a truthy result and
  without \<open>Timed out\<close>. When its invocation takes 6000 ms and then throws, the deadline
  of 5000 ms passes without a truthy result, and the poller fails with the error of the
  predicate, not with \<open>Timed out\<close>.
\<close>

theorem waitForFunction_polls_counterexample:
  "waitForFunction (spy rejecting) 5000 (State 0 []) =
     Result (Inl (Error ''Execution context was destroyed'')) 20
       [Ev 0 Invoked, Ev 20 (Settled (Threw (Error ''Execution context was destroyed'')))] \<and>
   finished (State 0 []) (waitForFunction (spy rejecting) 5000 (State 0 [])) < 0 + 5000 \<and>
   outcome (waitForFunction (spy rejecting) 5000 (State 0 [])) \<noteq> Inr () \<and>
   outcome (waitForFunction (spy rejecting) 5000 (State 0 [])) \<noteq> Inl (Error ''Timed out'') \<and>
   waitForFunction (spy rejecting_late) 5000 (State 0 []) =
     Result (Inl (Error ''Execution context was destroyed'')) 6000
       [Ev 0 Invoked, Ev 6000 (Settled (Threw (Error ''Execution context was destroyed'')))] \<and>
   0 + 5000 \<le> finished (State 0 []) (waitForFunction (spy rejecting_late) 5000 (State 0 [])) \<and>
   outcome (waitForFunction (spy rejecting_late) 5000 (State 0 [])) \<noteq> Inl (Error ''Timed out'')"
  by (simp add: poller_defs spy_def rejecting_def rejecting_late_def how_settled_def finished_def)

lemma loop_all_fail:
  "fail_in_turn sels w frame options s = Some (d, evs) \<Longrightarrow>
   waitForSelectors_loop sels w selectors frame options s =
     Result (Inl (Error (''Could not find element for selectors: '' @ JSON_stringify selectors))) d evs"
proof (induction sels arbitrary: s d evs)
  case Nil
  then show ?case by (simp add: throw_def)
next
  case (Cons sel rest)
  from Cons.prems obtain err d1 evs1 d2 evs2 where
    a: "waitForSelector w sel frame options s = Result (Inl err) d1 evs1" and
    b: "fail_in_turn rest w frame options (State (now s + d1) (history s @ evs1)) = Some (d2, evs2)" and
    c: "d = d1 + d2" "evs = evs1 @ evs2"
    by (auto split: result.splits sum.splits option.splits)
  show ?case
    using a Cons.IH[OF b] c by (simp add: try_return_def)
qed

lemma loop_first_success:
  "fail_in_turn ps w frame options s = Some (d, evs) \<Longrightarrow>
   waitForSelector w q frame options (State (now s + d) (history s @ evs)) = Result (Inr e) d' evs' \<Longrightarrow>
   waitForSelectors_loop (ps @ q # rest) w selectors frame options s = Result (Inr e) (d + d') (evs @ evs')"
proof (induction ps arbitrary: s d evs)
  case Nil
  then show ?case by (simp add: try_return_def)
next
  case (Cons sel ps)
  from Cons.prems(1) obtain err d1 evs1 d2 evs2 where
    a: "waitForSelector w sel frame options s = Result (Inl err) d1 evs1" and
    b: "fail_in_turn ps w frame options (State (now s + d1) (history s @ evs1)) = Some (d2, evs2)" and
    c: "d = d1 + d2" "evs = evs1 @ evs2"
    by (auto split: result.splits sum.splits option.splits)
  have "waitForSelector w q frame options
          (State (now (State (now s + d1) (history s @ evs1)) + d2)
                 (history (State (now s + d1) (history s @ evs1)) @ evs2)) = Result (Inr e) d' evs'"
    using Cons.prems(2) c by (simp add: add.assoc)
  from Cons.IH[OF b this] show ?case
    using a c by (simp add: try_return_def add.assoc)
qed

lemma all_fail_slowly:
  "fails_slowly w sels frame options T \<Longrightarrow> fail_in_turn sels w frame options s = Some (d, evs) \<Longrightarrow>
   length sels * T \<le> d"
proof (induction sels arbitrary: s d evs)
  case Nil
  then show ?case by simp
next
  case (Cons sel rest)
  from Cons.prems(2) obtain err d1 evs1 d2 evs2 where
    a: "waitForSelector w sel frame options s = Result (Inl err) d1 evs1" and
    b: "fail_in_turn rest w frame options (State (now s + d1) (history s @ evs1)) = Some (d2, evs2)" and
    c: "d = d1 + d2"
    by (auto split: result.splits sum.splits option.splits)
  have "fails_slowly w rest frame options T"
    using Cons.prems(1) by (simp add: fails_slowly_def)
  from Cons.IH[OF this b] have "length rest * T \<le> d2" .
  moreover have "T \<le> d1"
    using Cons.prems(1) a by (auto simp: fails_slowly_def dest!: spec[of _ s])
  ultimately show ?case
    using c by simp
qed

lemmas locator_defs = waitForSelectors_def waitForSelector_def await_def request_def return_def
  throw_def try_return_def JSON_stringify_def json_array_def json_string_def json_char_def

text \<open>
  C9. With no strategy at all the locator fails at once, before any lookup, with the
  error that names the (empty) list of selectors; it never returns a handle.
\<close>

theorem waitForSelectors_empty:
  "waitForSelectors w [] frame options s =
     Result (Inl (Error ''Could not find element for selectors: []'')) 0 [] \<and>
   (\<forall>e. outcome (waitForSelectors w [] frame options s) \<noteq> Inr e)"
  by (simp add: waitForSelectors_def throw_def JSON_stringify_def json_array_def)

text \<open>
  C4, as the code has it. When the strategies \<open>ps\<close> fail in turn and the next one, \<open>q\<close>,
  resolves, the locator returns the handle of \<open>q\<close>; the time it takes and the requests it
  issues are those of \<open>ps\<close> and \<open>q\<close>, whatever strategies come after \<open>q\<close>. When all
  strategies fail in turn, the locator fails with the error that carries the whole list,
  after the time the attempts took together, which is at least \<open>T\<close> for each strategy
  when no attempt fails faster than \<open>T\<close>.
\<close>

theorem waitForSelectors_first_success_else_all:
  "(fail_in_turn ps w frame options s = Some (d, evs) \<and>
    waitForSelector w q frame options (State (now s + d) (history s @ evs)) = Result (Inr e) d' evs'
    \<longrightarrow> waitForSelectors w (ps @ q # rest) frame options s = Result (Inr e) (d + d') (evs @ evs')) \<and>
   (fail_in_turn selectors w frame options s = Some (d, evs)
    \<longrightarrow> waitForSelectors w selectors frame options s =
          Result (Inl (Error (''Could not find element for selectors: '' @ JSON_stringify selectors))) d evs \<and>
        (fails_slowly w selectors frame options T \<longrightarrow> length selectors * T \<le> d))"
  using loop_first_success[of ps w frame options s d evs q e d' evs' rest "ps @ q # rest"]
    loop_all_fail[of selectors w frame options s d evs selectors]
    all_fail_slowly[of w selectors frame options T s d evs]
  by (simp add: waitForSelectors_def)

theorem waitForSelectors_first_success_else_all_witness:
  \<open>fail_in_turn [Parts [''aria/Email *'']] label_gone page (Options 5000 True) (State 0 []) =
     Some (5000, [Ev 0 (WaitForSelector (Frame page) ''aria/Email *'' (Options 5000 True))]) \<and>
   waitForSelector label_gone (Parts [''#user_email'']) page (Options 5000 True)
     (State 5000 [Ev 0 (WaitForSelector (Frame page) ''aria/Email *'' (Options 5000 True))]) =
     Result (Inr 7) 40 [Ev 5000 (WaitForSelector (Frame page) ''#user_email'' (Options 5000 True))] \<and>
   fails_slowly label_gone [Parts [''aria/Email *'']] page (Options 5000 True) 5000 \<and>
   waitForSelectors label_gone
       ([Parts [''aria/Email *'']] @ Parts [''#user_email''] # [Parts [''input[type=email]'']])
       page (Options 5000 True) (State 0 []) =
     Result (Inr 7) 5040
       [Ev 0 (WaitForSelector (Frame page) ''aria/Email *'' (Options 5000 True)),
        Ev 5000 (WaitForSelector (Frame page) ''#user_email'' (Options 5000 True))] \<and>
   waitForSelectors label_gone [Parts [''aria/Email *'']] page (Options 5000 True) (State 0 []) =
     Result (Inl (Error ''Could not find element for selectors: [["aria/Email *"]]'')) 5000
       [Ev 0 (WaitForSelector (Frame page) ''aria/Email *'' (Options 5000 True))] \<and>
   length [Parts [''aria/Email *'']] * 5000 \<le> (5000::nat)\<close>
proof -
  have h1: "fail_in_turn [Parts [''aria/Email *'']] label_gone page (Options 5000 True) (State 0 []) =
     Some (5000, [Ev 0 (WaitForSelector (Frame page) ''aria/Email *'' (Options 5000 True))])"
    by (simp add: locator_defs label_gone_def portal_def)
  have h2: "waitForSelector label_gone (Parts [''#user_email'']) page (Options 5000 True)
     (State 5000 [Ev 0 (WaitForSelector (Frame page) ''aria/Email *'' (Options 5000 True))]) =
     Result (Inr 7) 40 [Ev 5000 (WaitForSelector (Frame page) ''#user_email'' (Options 5000 True))]"
    by (simp add: locator_defs label_gone_def portal_def)
  have h3: "fails_slowly label_gone [Parts [''aria/Email *'']] page (Options 5000 True) 5000"
    by (simp add: fails_slowly_def locator_defs label_gone_def portal_def)
  have js: \<open>JSON_stringify [Parts [''aria/Email *'']] = ''[["aria/Email *"]]''\<close>
    by (simp add: locator_defs)
  show ?thesis
    using waitForSelectors_first_success_else_all
      [of "[Parts [''aria/Email *'']]" label_gone page "Options 5000 True" "State 0 []" 5000
          "[Ev 0 (WaitForSelector (Frame page) ''aria/Email *'' (Options 5000 True))]"
          "Parts [''#user_email'']" 7 40
          "[Ev 5000 (WaitForSelector (Frame page) ''#user_email'' (Options 5000 True))]"
          "[Parts [''input[type=email]'']]" "[Parts [''aria/Email *'']]" 5000]
      h1 h2 h3 js
    by simp
qed

text \<open>
  C4 as stated fails for a strategy without steps: \<open>waitForSelector\<close> rejects it at once,
  so the locator has failed at time 0, long before the timeout of 5000 ms has elapsed.
\<close>

theorem waitForSelectors_first_success_else_all_counterexample:
  "waitForSelectors (no_login_form []) [Parts []] page (Options 5000 True) (State 0 []) =
     Result (Inl (Error ''Could not find element for selectors: [[]]'')) 0 [] \<and>
   elapsed (waitForSelectors (no_login_form []) [Parts []] page (Options 5000 True) (State 0 []))
     < timeout_ms (Options 5000 True)"
  by (simp add: locator_defs)



text \<open>
  C6, as the code has it. After the wait for the connection (\<open>waitForConnected\<close>): when
  that wait fails, the guarantor fails with its error; when the element then intersects
  the viewport, the guarantor returns and has requested no scroll; otherwise it requests
  one scroll into view, centred in both directions and with behaviour \<open>auto\<close>, and its
  result is that of the condition poller run on the intersection check from then on,
  with a deadline of its own.
\<close>

theorem scrollIntoViewIfNeeded_phases:
  assumes "waitForConnected w element limit s = Result waited dc evsc"
  shows
    "(waited = Inl err \<longrightarrow> scrollIntoViewIfNeeded w element limit s = Result (Inl err) dc evsc) \<and>
     (waited = Inr () \<and>
      reply_value w (State (now s + dc) (history s @ evsc)) (IsIntersectingViewport element 0)
        = (Inr v, di) \<and>
      truthy v
      \<longrightarrow> scrollIntoViewIfNeeded w element limit s =
            Result (Inr ()) (dc + di) (evsc @ [Ev (now s + dc) (IsIntersectingViewport element 0)])) \<and>
     (waited = Inr () \<and>
      reply_value w (State (now s + dc) (history s @ evsc)) (IsIntersectingViewport element 0)
        = (Inr v, di) \<and>
      \<not> truthy v \<and>
      reply_unit w
        (State (now s + dc + di)
           (history s @ evsc @ [Ev (now s + dc) (IsIntersectingViewport element 0)]))
        (Evaluate element [ScrollIntoView ''center'' ''center'' ''auto'']) = (Inr (), ds) \<and>
      waitForFunction (isIntersectingViewport w element) limit
        (State (now s + dc + di + ds)
           (history s @ evsc @
            [Ev (now s + dc) (IsIntersectingViewport element 0),
             Ev (now s + dc + di) (Evaluate element [ScrollIntoView ''center'' ''center'' ''auto''])]))
        = Result polled dp evsp
      \<longrightarrow> scrollIntoViewIfNeeded w element limit s =
            Result polled (dc + di + ds + dp)
              (evsc @
               [Ev (now s + dc) (IsIntersectingViewport element 0),
                Ev (now s + dc + di) (Evaluate element [ScrollIntoView ''center'' ''center'' ''auto''])]
               @ evsp))"
  using assms
  by (auto simp: scrollIntoViewIfNeeded_def await_def isIntersectingViewport_def request_def
      return_def scroll_request_def waitForInViewport_def add.assoc)

lemmas visibility_defs = scrollIntoViewIfNeeded_def waitForConnected_def waitForInViewport_def
  waitForFunction_def waitForFunction_loop.simps setTimeout_delay_def getProperty_def isIntersectingViewport_def
  scroll_request_def await_def request_def return_def

theorem scrollIntoViewIfNeeded_phases_witness:
  "waitForConnected below_the_fold 7 5000 (State 0 []) =
     Result (Inr ()) 5 [Ev 0 (GetProperty 7 ''isConnected'')] \<and>
   reply_value below_the_fold (State 5 [Ev 0 (GetProperty 7 ''isConnected'')])
     (IsIntersectingViewport 7 0) = (Inr (Boolean False), 5) \<and>
   scrollIntoViewIfNeeded below_the_fold 7 5000 (State 0 []) =
     Result (Inr ()) 35
       [Ev 0 (GetProperty 7 ''isConnected''), Ev 5 (IsIntersectingViewport 7 0),
        Ev 10 (Evaluate 7 [ScrollIntoView ''center'' ''center'' ''auto'']),
        Ev 30 (IsIntersectingViewport 7 0)] \<and>
   waitForConnected (portal []) 7 5000 (State 0 []) =
     Result (Inr ()) 5 [Ev 0 (GetProperty 7 ''isConnected'')] \<and>
   scrollIntoViewIfNeeded (portal []) 7 5000 (State 0 []) =
     Result (Inr ()) 10 [Ev 0 (GetProperty 7 ''isConnected''), Ev 5 (IsIntersectingViewport 7 0)] \<and>
   waitForConnected context_lost 7 5000 (State 0 []) =
     Result (Inl (Error ''Execution context was destroyed'')) 5 [Ev 0 (GetProperty 7 ''isConnected'')] \<and>
   scrollIntoViewIfNeeded context_lost 7 5000 (State 0 []) =
     Result (Inl (Error ''Execution context was destroyed'')) 5 [Ev 0 (GetProperty 7 ''isConnected'')]"
proof -
  have c1: "waitForConnected context_lost 7 5000 (State 0 []) =
     Result (Inl (Error ''Execution context was destroyed'')) 5 [Ev 0 (GetProperty 7 ''isConnected'')]"
    by (simp add: visibility_defs context_lost_def portal_def)
  have a1: "waitForConnected below_the_fold 7 5000 (State 0 []) =
     Result (Inr ()) 5 [Ev 0 (GetProperty 7 ''isConnected'')]"
    by (simp add: visibility_defs below_the_fold_def portal_def)
  have a2: "reply_value below_the_fold (State 5 [Ev 0 (GetProperty 7 ''isConnected'')])
     (IsIntersectingViewport 7 0) = (Inr (Boolean False), 5)"
    by (simp add: below_the_fold_def portal_def scroll_request_def)
  have a3: "reply_unit below_the_fold
      (State 10 [Ev 0 (GetProperty 7 ''isConnected''), Ev 5 (IsIntersectingViewport 7 0)])
      (Evaluate 7 [ScrollIntoView ''center'' ''center'' ''auto'']) = (Inr (), 20)"
    by (simp add: below_the_fold_def portal_def)
  have a4: "waitForFunction (isIntersectingViewport below_the_fold 7) 5000
      (State 30 [Ev 0 (GetProperty 7 ''isConnected''), Ev 5 (IsIntersectingViewport 7 0),
                 Ev 10 (Evaluate 7 [ScrollIntoView ''center'' ''center'' ''auto''])]) =
      Result (Inr ()) 5 [Ev 30 (IsIntersectingViewport 7 0)]"
    by (simp add: visibility_defs below_the_fold_def portal_def)
  have b1: "waitForConnected (portal []) 7 5000 (State 0 []) =
     Result (Inr ()) 5 [Ev 0 (GetProperty 7 ''isConnected'')]"
    by (simp add: visibility_defs portal_def)
  have b2: "reply_value (portal []) (State 5 [Ev 0 (GetProperty 7 ''isConnected'')])
     (IsIntersectingViewport 7 0) = (Inr (Boolean True), 5)"
    by (simp add: portal_def)
  show ?thesis
    using scrollIntoViewIfNeeded_phases[OF a1, where v = "Boolean False" and di = 5 and ds = 20
        and polled = "Inr ()" and dp = 5 and evsp = "[Ev 30 (IsIntersectingViewport 7 0)]"]
      scrollIntoViewIfNeeded_phases[OF b1, where v = "Boolean True" and di = 5]
      scrollIntoViewIfNeeded_phases[OF c1, where err = "Error ''Execution context was destroyed''"]
      a1 a2 a3 a4 b1 b2 c1
    by simp
qed

text \<open>
  C6 as stated fails for an element that is not in the document. The claim has the
  guarantor poll for the connection until the deadline and fail there; what is awaited is
  the \<open>JSHandle\<close> of \<open>isConnected\<close>, which is truthy whatever the property is, so the
  wait is over after one request. The scroll that follows is requested with behaviour
  \<open>auto\<close>, not \<open>smooth\<close>.
\<close>

theorem scrollIntoViewIfNeeded_phases_counterexample:
  "reply_value detached (State 0 []) (GetProperty 7 ''isConnected'') = (Inr (Boolean False), 5) \<and>
   waitForConnected detached 7 300 (State 0 []) =
     Result (Inr ()) 5 [Ev 0 (GetProperty 7 ''isConnected'')] \<and>
   scrollIntoViewIfNeeded detached 7 300 (State 0 []) =
     Result (Inl (Error ''Timed out'')) 345
       [Ev 0 (GetProperty 7 ''isConnected''), Ev 5 (IsIntersectingViewport 7 0),
        Ev 10 (Evaluate 7 [ScrollIntoView ''center'' ''center'' ''auto'']),
        Ev 30 (IsIntersectingViewport 7 0), Ev 135 (IsIntersectingViewport 7 0),
        Ev 240 (IsIntersectingViewport 7 0)] \<and>
   ScrollIntoView ''center'' ''center'' ''auto'' \<noteq> ScrollIntoView ''center'' ''center'' ''smooth''"
  by (simp add: visibility_defs detached_def portal_def)

text \<open>
  C7. The field's \<open>type\<close> decides: for the types of free text (\<open>text\<close>, \<open>textarea\<close>),
  numbers, e-mail addresses, passwords, URLs, phone numbers, searches and single-choice
  lists the text is typed key by key, and nothing else is done; for every other value
  the field is focused and then, in one evaluation in the page, its value is set and the
  events \<open>input\<close> and \<open>change\<close> are dispatched, in this order (nothing is typed). Only a
  focus that fails keeps the evaluation from being requested.
\<close>

theorem type_into_by_category:
  assumes "reply_value w s (EvaluateType element) = (Inr type, d)"
    and "reply_unit w (State (now s + d) (history s @ [Ev (now s) (EvaluateType element)]))
           (Focus element) = (focused, df)"
  shows
    "if type \<in> String ` {''text'', ''textarea'', ''number'', ''email'', ''password'', ''url'',
                         ''tel'', ''search'', ''select-one''}
     then emitted (type_into w element text s) =
            [Ev (now s) (EvaluateType element), Ev (now s + d) (TypeText element text)]
     else emitted (type_into w element text s) =
            [Ev (now s) (EvaluateType element), Ev (now s + d) (Focus element)] @
            (case focused of
               Inl err \<Rightarrow> []
             | Inr done \<Rightarrow>
                 [Ev (now s + d + df)
                    (Evaluate element
                       [SetValue text, DispatchEvent ''input'' True, DispatchEvent ''change'' True])])"
proof (cases "Array_includes typeable type")
  case True
  then have "type \<in> String ` {''text'', ''textarea'', ''number'', ''email'', ''password'', ''url'',
                         ''tel'', ''search'', ''select-one''}"
    by (auto simp: Array_includes_def typeable_def split: js_value.splits)
  with True assms show ?thesis
    by (simp add: type_into_def await_def request_def split: prod.splits)
next
  case False
  then have "type \<notin> String ` {''text'', ''textarea'', ''number'', ''email'', ''password'', ''url'',
                         ''tel'', ''search'', ''select-one''}"
    by (auto simp: Array_includes_def typeable_def split: js_value.splits)
  with False assms show ?thesis
    by (auto simp: type_into_def await_def request_def inject_request_def add.assoc
        split: prod.splits sum.splits)
qed

theorem type_into_by_category_witness:
  "reply_value (portal []) (State 0 []) (EvaluateType 7) = (Inr (String ''email''), 5) \<and>
   emitted (type_into (portal []) 7 ''username'' (State 0 [])) =
     [Ev 0 (EvaluateType 7), Ev 5 (TypeText 7 ''username'')] \<and>
   reply_value checkbox_field (State 0 []) (EvaluateType 7) = (Inr (String ''checkbox''), 5) \<and>
   reply_unit checkbox_field (State 5 [Ev 0 (EvaluateType 7)]) (Focus 7) = (Inr (), 20) \<and>
   emitted (type_into checkbox_field 7 ''username'' (State 0 [])) =
     [Ev 0 (EvaluateType 7), Ev 5 (Focus 7),
      Ev 25 (Evaluate 7 [SetValue ''username'', DispatchEvent ''input'' True,
                         DispatchEvent ''change'' True])]"
proof -
  have a1: "reply_value (portal []) (State 0 []) (EvaluateType 7) = (Inr (String ''email''), 5)"
    by (simp add: portal_def)
  have a2: "reply_unit (portal []) (State (now (State 0 []) + 5)
              (history (State 0 []) @ [Ev (now (State 0 [])) (EvaluateType 7)])) (Focus 7) = (Inr (), 20)"
    by (simp add: portal_def)
  have b1: "reply_value checkbox_field (State 0 []) (EvaluateType 7) = (Inr (String ''checkbox''), 5)"
    by (simp add: checkbox_field_def portal_def)
  have b2: "reply_unit checkbox_field (State (now (State 0 []) + 5)
              (history (State 0 []) @ [Ev (now (State 0 [])) (EvaluateType 7)])) (Focus 7) = (Inr (), 20)"
    by (simp add: checkbox_field_def portal_def)
  show ?thesis
    using type_into_by_category[OF a1 a2, of "''username''"]
      type_into_by_category[OF b1 b2, of "''username''"] a1 b1 b2
    by simp
qed


lemma date_2022_05_01: "iso_date_only ''2022-05-01'' = Time_Value 1651363200000"
  by code_simp

lemma date_2022_06_22: "iso_date_only ''2022-06-22'' = Time_Value 1655856000000"
  by code_simp

lemma date_2022_07_01: "iso_date_only ''2022-07-01'' = Time_Value 1656633600000"
  by code_simp

lemma toDateString_2022_05_01: "toDateString_utc (Time_Value 1651363200000) = ''Sun May 01 2022''"
  by code_simp

lemma toDateString_2022_07_01: "toDateString_utc (Time_Value 1656633600000) = ''Fri Jul 01 2022''"
  by code_simp

lemma toString_2022_05_01:
  "toString_utc (Time_Value 1651363200000) =
     ''Sun May 01 2022 00:00:00 GMT+0000 (Coordinated Universal Time)''"
  by code_simp

lemma toString_2022_06_22:
  "toString_utc (Time_Value 1655856000000) =
     ''Wed Jun 22 2022 00:00:00 GMT+0000 (Coordinated Universal Time)''"
  by code_simp

lemma toString_2022_07_01:
  "toString_utc (Time_Value 1656633600000) =
     ''Fri Jul 01 2022 00:00:00 GMT+0000 (Coordinated Universal Time)''"
  by code_simp

lemmas dates = date_2022_05_01 date_2022_06_22 date_2022_07_01 toDateString_2022_05_01
  toDateString_2022_07_01 toString_2022_05_01 toString_2022_06_22 toString_2022_07_01

lemmas run_defs = runLogic_def start_browser_def setTimeout_delay_def runPuppeteerLogic_def set_viewport_def go_to_login_page_def
  click_username_def type_username_def tab_to_password_def type_password_def tick_agreement_def
  click_login_def check_available_dates_def decide_def notify_def log_def tell_def request_def
  await_def return_def throw_def try_return_def waitForSelectors_def waitForSelector_def
  scrollIntoViewIfNeeded_def waitForConnected_def waitForInViewport_def waitForFunction_def
  getProperty_def isIntersectingViewport_def type_into_def Array_includes_def typeable_def
  email_selectors_def password_selectors_def agreement_selectors_def login_selectors_def
  timeout_def navigationTimeout_def page_def currentDate_def earlier_message_def available_message_def
  days_request_def push_request_def scroll_request_def inject_request_def
  waitForFunction_loop.simps JSON_stringify_def json_array_def json_string_def json_char_def

lemma run_earlier:
  "\<exists>d evs. runLogic (portal [\<lparr>date = ''2022-05-01''\<rparr>]) readme_config (State 0 []) =
              Result (Inr ScheduledEarlierFound) d evs \<and>
           pushed evs = [''There is an earlier date available for the appointment! Sun May 01 2022''] \<and>
           closes evs = 1"
  by (simp add: run_defs portal_def readme_config_def dates pushed_def closes_def)

lemma run_push_rejected:
  "\<exists>d evs. runLogic (push_rejected [\<lparr>date = ''2022-05-01''\<rparr>]) readme_config (State 0 []) =
              Result (Inr (Failed (Error ''Request failed with status code 401''))) d evs \<and>
           pushed evs = [''There is an earlier date available for the appointment! Sun May 01 2022''] \<and>
           closes evs = 0"
  by (simp add: run_defs push_rejected_def portal_def readme_config_def dates pushed_def closes_def)


lemma run_no_dates:
  "\<exists>d evs. runLogic (portal []) readme_config (State 0 []) =
              Result (Inr NoSlotsAtAll) d evs \<and> closes evs = 1"
  by (simp add: run_defs portal_def readme_config_def dates pushed_def closes_def)

lemma request_alt:
  "request reply c s = Result (fst (reply s c)) (snd (reply s c)) [Ev (now s) c]"
  by (simp add: request_def split: prod.splits)






text \<open>
  C8, as the code has it. With the one slot \<open>2022-05-01\<close> and the threshold
  \<open>2022-06-22\<close>, both read as midnight UTC, the decision is \<open>ScheduledEarlierFound\<close>. The
  message is the fixed sentence followed by \<open>firstDate.toDateString()\<close>. It is logged, and
  then the notifier is called with it: the notifier logs it once more and, the token
  being set, hands it to the push service.
\<close>

theorem scenario_A_message:
  assumes "Date_parse w ''2022-05-01'' = Time_Value 1651363200000"
    and "Date_parse w ''2022-06-22'' = Time_Value 1655856000000"
    and "args_d cfg = ''2022-06-22''"
    and "userToken cfg = Some token" and "token \<noteq> []"
    and "obliging w"
    and "msg = ''There is an earlier date available for the appointment! ''
               @ Date_toDateString w (Time_Value 1651363200000)"
  shows "outcome (decide w cfg agent [\<lparr>date = ''2022-05-01''\<rparr>] s) = Inr ScheduledEarlierFound \<and>
         emitted (decide w cfg agent [\<lparr>date = ''2022-05-01''\<rparr>] s) =
           [Ev (now s) (Log (''There are available dates. Your current date is ''
                             @ Date_toString w (Time_Value 1655856000000)
                             @ ''. The first available date is ''
                             @ Date_toString w (Time_Value 1651363200000))),
            Ev (now s) (Log msg),
            Ev (now s) (Log msg),
            Ev (now s) (push_request token msg agent)] \<and>
         emitted (notify w cfg msg agent s) =
           [Ev (now s) (Log msg), Ev (now s) (push_request token msg agent)]"
  using assms
  by (simp add: decide_def notify_def await_def log_def tell_def return_def request_alt
      obliging_def Let_def currentDate_def earlier_message_def available_message_def)

theorem scenario_A_message_witness:
  "Date_parse (portal []) ''2022-05-01'' = Time_Value 1651363200000 \<and>
   Date_parse (portal []) ''2022-06-22'' = Time_Value 1655856000000 \<and>
   args_d readme_config = ''2022-06-22'' \<and>
   userToken readme_config = Some ''pu5hov3ru53rk3y'' \<and>
   obliging (portal []) \<and>
   outcome (decide (portal []) readme_config ''agent'' [\<lparr>date = ''2022-05-01''\<rparr>] (State 0 []))
     = Inr ScheduledEarlierFound \<and>
   emitted (notify (portal []) readme_config
              ''There is an earlier date available for the appointment! Sun May 01 2022''
              ''agent'' (State 0 [])) =
     [Ev 0 (Log ''There is an earlier date available for the appointment! Sun May 01 2022''),
      Ev 0 (push_request ''pu5hov3ru53rk3y''
              ''There is an earlier date available for the appointment! Sun May 01 2022'' ''agent'')]"
proof -
  have h1: "Date_parse (portal []) ''2022-05-01'' = Time_Value 1651363200000"
    by (simp add: portal_def dates)
  have h2: "Date_parse (portal []) ''2022-06-22'' = Time_Value 1655856000000"
    by (simp add: portal_def dates)
  have h3: "args_d readme_config = ''2022-06-22''"
    by (simp add: readme_config_def)
  have h4: "userToken readme_config = Some ''pu5hov3ru53rk3y''"
    by (simp add: readme_config_def)
  have h5: "''pu5hov3ru53rk3y'' \<noteq> []"
    by simp
  have h6: "obliging (portal [])"
    by (simp add: obliging_def portal_def)
  have h7: "''There is an earlier date available for the appointment! Sun May 01 2022'' =
            ''There is an earlier date available for the appointment! ''
            @ Date_toDateString (portal []) (Time_Value 1651363200000)"
    by (simp add: portal_def dates)
  show ?thesis
    using scenario_A_message[OF h1 h2 h3 h4 h5 h6 h7, of "''agent''" "State 0 []"] h1 h2 h3 h4 h6
    by simp
qed

text \<open>
  C8 as stated fails: in the run of scenario A the one message handed to the push
  service names the date as \<open>Sun May 01 2022\<close>; the text \<open>2022-05-01\<close> is not part of it.
\<close>

theorem scenario_A_message_counterexample:
  "outcome (runLogic (portal [\<lparr>date = ''2022-05-01''\<rparr>]) readme_config (State 0 []))
     = Inr ScheduledEarlierFound \<and>
   pushed (emitted (runLogic (portal [\<lparr>date = ''2022-05-01''\<rparr>]) readme_config (State 0 [])))
     = [''There is an earlier date available for the appointment! Sun May 01 2022''] \<and>
   \<not> sublist ''2022-05-01''
       ''There is an earlier date available for the appointment! Sun May 01 2022''"
proof -
  have "\<not> sublist ''2022-05-01''
       ''There is an earlier date available for the appointment! Sun May 01 2022''"
    by code_simp
  with run_earlier show ?thesis
    by auto
qed

lemma run_no_login_form:
  \<open>runLogic (no_login_form []) readme_config (State 0 []) =
     Result (Inr (Failed (Error ''Could not find element for selectors: [["aria/Email *"],["#user_email"]]'')))
       10085
       [Ev 0 (Log ''Initializing Puppeteer...''), Ev 0 Launch, Ev 20 UserAgent, Ev 25 NewPage,
        Ev 45 (SetDefaultTimeout 5000), Ev 45 (SetDefaultNavigationTimeout 60000),
        Ev 45 (Log ''Puppeteer initialized.''), Ev 45 (SetViewport 2078 1479),
        Ev 65 (Log ''Viewport set.''),
        Ev 65 (Goto ''https://ais.usvisa-info.com/en-ca/niv/users/sign_in'' ''domcontentloaded''),
        Ev 85 (Log ''Navigated to login page.''),
        Ev 85 (WaitForSelector (Frame 0) ''aria/Email *'' (Options 5000 True)),
        Ev 5085 (WaitForSelector (Frame 0) ''#user_email'' (Options 5000 True)),
        Ev 10085 (ConsoleError (Error ''Could not find element for selectors: [["aria/Email *"],["#user_email"]]''))]\<close>
  by (simp add: run_defs no_login_form_def portal_def readme_config_def)

lemma await_assoc: "await (await m k) h = await m (\<lambda>x. await (k x) h)"
proof
  fix s
  show "await (await m k) h s = await m (\<lambda>x. await (k x) h) s"
    by (simp add: await_def add.assoc split: result.splits sum.splits)
qed

lemma runPuppeteerLogic_split:
  "runPuppeteerLogic w cfg agent =
     await (reach_decision w cfg agent) (\<lambda>availableDates.
     await (decide w cfg agent availableDates) (\<lambda>decided.
       if decided = NoSlotsAtAll then return decided
       else await (request (reply_unit w) Close) (\<lambda>_. return decided)))"
  by (simp add: runPuppeteerLogic_def reach_decision_def check_available_dates_def await_assoc)

text \<open>
  C3, as the code has it. Take a run that comes to the notifier: the browser starts,
  the workflow signs in and gets the dates, the first of them is before the threshold,
  and a token is set. If the push request is rejected then, before the 60 s are over,
  the rejection is not caught in the notifier: \<open>notify\<close> rejects with the error of the
  request. Nothing on the way up catches it either, up to the catch of \<open>runLogic\<close>: the
  run is \<open>Failed\<close> with that error, and the last thing it does is to write the error to
  the console.
\<close>

theorem notify_failure_propagates:
  assumes "start_browser w
             (State (now s) (history s @ [Ev (now s) (Log ''Initializing Puppeteer...'')]))
             = Result (Inr agent) d0 evs0"
    and "reach_decision w cfg agent
           (State (now s + d0) (history s @ Ev (now s) (Log ''Initializing Puppeteer...'') # evs0))
           = Result (Inr availableDates) d1 evs1"
    and "availableDates \<noteq> []"
    and "firstDate = Date_parse w (date (availableDates ! 0))"
    and "date_less firstDate (currentDate w cfg)"
    and "userToken cfg = Some token" and "token \<noteq> []"
    and "msg = earlier_message w firstDate"
    and "at_notify =
           State (now s + d0 + d1)
             (history s @ Ev (now s) (Log ''Initializing Puppeteer...'') # evs0 @ evs1 @
              [Ev (now s + d0 + d1) (Log (available_message w cfg firstDate)),
               Ev (now s + d0 + d1) (Log msg)])"
    and "reply_unit w (State (now at_notify) (history at_notify @ [Ev (now at_notify) (Log msg)]))
           (push_request token msg agent) = (Inl err, dp)"
    and "d0 + d1 + dp < 60000"
  shows "notify w cfg msg agent at_notify =
           Result (Inl err) dp
             [Ev (now at_notify) (Log msg), Ev (now at_notify) (push_request token msg agent)] \<and>
         outcome (runLogic w cfg s) = Inr (Failed err) \<and>
         finished s (runLogic w cfg s) = now s + d0 + d1 + dp \<and>
         last (emitted (runLogic w cfg s)) = Ev (now s + d0 + d1 + dp) (ConsoleError err)"
proof -
  let ?init = "Ev (now s) (Log ''Initializing Puppeteer...'')"
  let ?t = "now s + d0 + d1"
  let ?s2 = "State ?t (history s @ ?init # evs0 @ evs1)"
  have n: "notify w cfg msg agent at_notify =
           Result (Inl err) dp
             [Ev (now at_notify) (Log msg), Ev (now at_notify) (push_request token msg agent)]"
    using assms(6,7,10) by (simp add: notify_def await_def log_def tell_def request_def)
  have at: "at_notify =
        State (now ?s2) (history ?s2 @ [Ev (now ?s2) (Log (available_message w cfg firstDate)),
                                        Ev (now ?s2) (Log (earlier_message w firstDate))])"
    by (simp add: assms(8,9))
  have d: "decide w cfg agent availableDates ?s2 =
        Result (Inl err) dp
          ([Ev ?t (Log (available_message w cfg firstDate)), Ev ?t (Log msg)] @
           [Ev ?t (Log msg), Ev ?t (push_request token msg agent)])"
    using assms(3,5) n[unfolded at]
    by (simp add: decide_def await_def log_def tell_def Let_def assms(4)[symmetric] assms(8)[symmetric])
  have r: "runPuppeteerLogic w cfg agent (State (now s + d0) (history s @ ?init # evs0)) =
        Result (Inl err) (d1 + dp)
          (evs1 @ [Ev ?t (Log (available_message w cfg firstDate)), Ev ?t (Log msg)] @
           [Ev ?t (Log msg), Ev ?t (push_request token msg agent)])"
    using assms(2) d by (simp add: runPuppeteerLogic_split await_def add.assoc)
  have run: "runLogic w cfg s =
        Result (Inr (Failed err)) (d0 + (d1 + dp))
          (?init # evs0 @
           (evs1 @ [Ev ?t (Log (available_message w cfg firstDate)), Ev ?t (Log msg)] @
            [Ev ?t (Log msg), Ev ?t (push_request token msg agent)])
           @ [Ev (now s + d0 + (d1 + dp)) (ConsoleError err)])"
    using assms(1,11) r by (simp add: runLogic_def)
  show ?thesis
    using n by (simp add: run finished_def add.assoc)
qed

lemma reach_push_rejected:
  "\<exists>d evs. reach_decision (push_rejected [\<lparr>date = ''2022-05-01''\<rparr>]) readme_config
              ''Mozilla/5.0 HeadlessChrome''
              (State (now (State 0 []) + 45)
                 (history (State 0 []) @ Ev (now (State 0 [])) (Log ''Initializing Puppeteer...'') #
                  [Ev 0 Launch, Ev 20 UserAgent, Ev 25 NewPage, Ev 45 (SetDefaultTimeout 5000),
                   Ev 45 (SetDefaultNavigationTimeout 60000)])) =
              Result (Inr [\<lparr>date = ''2022-05-01''\<rparr>]) d evs \<and> d < 59000"
  by (simp add: reach_decision_def run_defs push_rejected_def portal_def readme_config_def)

theorem notify_failure_propagates_witness:
  "start_browser (push_rejected [\<lparr>date = ''2022-05-01''\<rparr>]) (State 0 [Ev 0 (Log ''Initializing Puppeteer...'')])
     = Result (Inr ''Mozilla/5.0 HeadlessChrome'') 45
         [Ev 0 Launch, Ev 20 UserAgent, Ev 25 NewPage, Ev 45 (SetDefaultTimeout 5000),
          Ev 45 (SetDefaultNavigationTimeout 60000)] \<and>
   date_less (Date_parse (push_rejected [\<lparr>date = ''2022-05-01''\<rparr>]) (date ([\<lparr>date = ''2022-05-01''\<rparr>] ! 0)))
     (currentDate (push_rejected [\<lparr>date = ''2022-05-01''\<rparr>]) readme_config) \<and>
   userToken readme_config = Some ''pu5hov3ru53rk3y'' \<and>
   earlier_message (push_rejected [\<lparr>date = ''2022-05-01''\<rparr>]) (Time_Value 1651363200000) =
     ''There is an earlier date available for the appointment! Sun May 01 2022'' \<and>
   outcome (runLogic (push_rejected [\<lparr>date = ''2022-05-01''\<rparr>]) readme_config (State 0 []))
     = Inr (Failed (Error ''Request failed with status code 401''))"
proof -
  let ?w = "push_rejected [\<lparr>date = ''2022-05-01''\<rparr>]"
  let ?first = "Time_Value 1651363200000"
  let ?msg = "''There is an earlier date available for the appointment! Sun May 01 2022''"
  let ?agent = "''Mozilla/5.0 HeadlessChrome''"
  let ?evs0 = "[Ev 0 Launch, Ev 20 UserAgent, Ev 25 NewPage, Ev 45 (SetDefaultTimeout 5000),
                Ev 45 (SetDefaultNavigationTimeout 60000)]"
  have h1: "start_browser ?w
      (State (now (State 0 [])) (history (State 0 []) @ [Ev (now (State 0 [])) (Log ''Initializing Puppeteer...'')]))
      = Result (Inr ?agent) 45 ?evs0"
    by (simp add: run_defs push_rejected_def portal_def)
  from reach_push_rejected obtain d evs where
    h2: "reach_decision ?w readme_config ?agent
           (State (now (State 0 []) + 45)
              (history (State 0 []) @ Ev (now (State 0 [])) (Log ''Initializing Puppeteer...'') # ?evs0))
           = Result (Inr [\<lparr>date = ''2022-05-01''\<rparr>]) d evs" and soon: "d < 59000"
    by blast
  have h3: "[\<lparr>date = ''2022-05-01''\<rparr>] \<noteq> []"
    by simp
  have h4: "?first = Date_parse ?w (date ([\<lparr>date = ''2022-05-01''\<rparr>] ! 0))"
    by (simp add: push_rejected_def portal_def dates)
  have h5: "date_less ?first (currentDate ?w readme_config)"
    by (simp add: currentDate_def push_rejected_def portal_def readme_config_def dates)
  have h6: "userToken readme_config = Some ''pu5hov3ru53rk3y''"
    by (simp add: readme_config_def)
  have h7: "''pu5hov3ru53rk3y'' \<noteq> []"
    by simp
  have h8: "?msg = earlier_message ?w ?first"
    by (simp add: earlier_message_def push_rejected_def portal_def dates)
  have h10: "reply_unit ?w s' (push_request ''pu5hov3ru53rk3y'' ?msg ?agent)
      = (Inl (Error ''Request failed with status code 401''), 150)" for s'
    by (simp add: push_rejected_def portal_def push_request_def)
  have h11: "45 + d + 150 < 60000"
    using soon by simp
  show ?thesis
    using notify_failure_propagates[OF h1 h2 h3 h4 h5 h6 h7 h8 refl h10 h11] h1 h4 h5 h6 h8
    by simp
qed

text \<open>
  C3 as stated fails: against the same portal, with the same slot and command line, the
  run ends \<open>ScheduledEarlierFound\<close> when the push is delivered and \<open>Failed\<close>, with the
  error of the push request, when it is not.
\<close>

theorem notify_failure_propagates_counterexample:
  "outcome (runLogic (portal [\<lparr>date = ''2022-05-01''\<rparr>]) readme_config (State 0 []))
     = Inr ScheduledEarlierFound \<and>
   outcome (runLogic (push_rejected [\<lparr>date = ''2022-05-01''\<rparr>]) readme_config (State 0 []))
     = Inr (Failed (Error ''Request failed with status code 401'')) \<and>
   outcome (notify (push_rejected [\<lparr>date = ''2022-05-01''\<rparr>]) readme_config
              ''There is an earlier date available for the appointment! Sun May 01 2022''
              ''Mozilla/5.0 HeadlessChrome'' (State 0 []))
     = Inl (Error ''Request failed with status code 401'')"
proof -
  have "outcome (notify (push_rejected [\<lparr>date = ''2022-05-01''\<rparr>]) readme_config
              ''There is an earlier date available for the appointment! Sun May 01 2022''
              ''Mozilla/5.0 HeadlessChrome'' (State 0 []))
     = Inl (Error ''Request failed with status code 401'')"
    by (simp add: notify_def await_def log_def tell_def request_def push_rejected_def portal_def
        readme_config_def push_request_def)
  with run_earlier run_push_rejected show ?thesis
    by auto
qed

text \<open>
  C2 at a run that fails: no lookup of the e-mail field resolves, the locator gives up,
  and the catch of \<open>runLogic\<close> writes the error to the console. The browser that was
  launched is never asked to close. The runs that come to a decision do ask, once.
\<close>

theorem failed_run_never_closes:
  \<open>outcome (runLogic (no_login_form []) readme_config (State 0 [])) =
     Inr (Failed (Error ''Could not find element for selectors: [["aria/Email *"],["#user_email"]]'')) \<and>
   emitted (runLogic (no_login_form []) readme_config (State 0 [])) =
       [Ev 0 (Log ''Initializing Puppeteer...''), Ev 0 Launch, Ev 20 UserAgent, Ev 25 NewPage,
        Ev 45 (SetDefaultTimeout 5000), Ev 45 (SetDefaultNavigationTimeout 60000),
        Ev 45 (Log ''Puppeteer initialized.''), Ev 45 (SetViewport 2078 1479),
        Ev 65 (Log ''Viewport set.''),
        Ev 65 (Goto ''https://ais.usvisa-info.com/en-ca/niv/users/sign_in'' ''domcontentloaded''),
        Ev 85 (Log ''Navigated to login page.''),
        Ev 85 (WaitForSelector (Frame 0) ''aria/Email *'' (Options 5000 True)),
        Ev 5085 (WaitForSelector (Frame 0) ''#user_email'' (Options 5000 True)),
        Ev 10085 (ConsoleError (Error ''Could not find element for selectors: [["aria/Email *"],["#user_email"]]''))] \<and>
   closes (emitted (runLogic (no_login_form []) readme_config (State 0 []))) = 0 \<and>
   closes (emitted (runLogic (portal []) readme_config (State 0 []))) = 1 \<and>
   closes (emitted (runLogic (portal [\<lparr>date = ''2022-05-01''\<rparr>]) readme_config (State 0 []))) = 1\<close>
  using run_no_dates run_earlier
  by (auto simp: run_no_login_form closes_def)

end
